theory Spec2Isabelle
  imports Complex_Main "HOL-Library.AList"
begin

section \<open>Python values and exceptions\<close>

text \<open>
  The pipeline is written in Python; the values it stores, looks up and passes around are
  dynamically typed.  \<open>pyval\<close> is the fragment of Python's value universe that the
  modelled code handles: \<open>None\<close>, booleans, integers, floats (as reals), strings, lists
  and string-keyed dictionaries.  A dictionary is an association list in insertion order;
  \<open>map_of\<close> is the lookup, \<open>AList.update\<close> the assignment \<open>d[k] = v\<close>.
\<close>

datatype pyval =
    PNone
  | PBool bool
  | PInt int
  | PFloat real
  | PStr string
  | PList "pyval list"
  | PDict "(string \<times> pyval) list"

type_synonym pydict = "(string \<times> pyval) list"

text \<open>
  Exceptions are values.  \<open>AttributeError\<close> is what \<open>x.get(...)\<close> raises on a value that is
  not a dictionary, \<open>KeyError k\<close> what \<open>d[k]\<close> raises on a missing key,
  \<open>DataError t\<close> what the store client raises when it is handed a value of type \<open>t\<close>
  that it cannot encode, and \<open>RedisError msg\<close> is any exception that a call of the
  store client raises because of the connection or the server, with \<open>str(e) = msg\<close>.
  The texts that \<open>str_exn\<close> gives for the first two only stand in for Python's: no run
  of the modelled code passes either of them to \<open>str\<close>.
\<close>

datatype exn = AttributeError | KeyError string | DataError string | RedisError string

fun str_exn :: "exn \<Rightarrow> string" where
  "str_exn AttributeError = ''object has no attribute get''"
| "str_exn (KeyError k) = [CHR 0x27] @ k @ [CHR 0x27]"
| "str_exn (DataError t) =
     ''Invalid input of type: '' @ [CHR 0x27] @ t @ [CHR 0x27]
       @ ''. Convert to a bytes, string, int or float first.''"
| "str_exn (RedisError msg) = msg"

definition bind_exn :: "exn + 'a \<Rightarrow> ('a \<Rightarrow> exn + 'b) \<Rightarrow> exn + 'b" where
  "bind_exn m f = (case m of Inl e \<Rightarrow> Inl e | Inr x \<Rightarrow> f x)"

text \<open>\<open>d.get(k, default)\<close> on a dictionary, and on an arbitrary value.\<close>

definition dict_get :: "pydict \<Rightarrow> string \<Rightarrow> pyval \<Rightarrow> pyval" where
  "dict_get d k dflt = (case map_of d k of Some v \<Rightarrow> v | None \<Rightarrow> dflt)"

fun py_get :: "pyval \<Rightarrow> string \<Rightarrow> pyval \<Rightarrow> exn + pyval" where
  "py_get (PDict d) k dflt = Inr (dict_get d k dflt)"
| "py_get v k dflt = Inl AttributeError"

text \<open>\<open>d[k]\<close>, which raises on a missing key.\<close>

definition subscript :: "(string \<times> 'v) list \<Rightarrow> string \<Rightarrow> exn + 'v" where
  "subscript d k = (case map_of d k of Some v \<Rightarrow> Inr v | None \<Rightarrow> Inl (KeyError k))"

text \<open>\<open>d.update(mapping)\<close>: later pairs win, new keys are appended.\<close>

definition dict_update :: "pydict \<Rightarrow> pydict \<Rightarrow> pydict" where
  "dict_update d mapping = fold (\<lambda>(k, v). AList.update k v) mapping d"

section \<open>The emotional index (emotional\_index\_v3.py)\<close>

text \<open>
  The module-level table \<open>EMOTIONAL_INDEX\<close>, one definition per archetype, in the order of
  the source.
\<close>

definition curiosity_entry :: pyval where
  "curiosity_entry = PDict
     [(''description'', PStr ''Viewer investigating unknown''),
      (''camera'', PDict
       [(''light'', PDict
         [(''movement'', PStr ''slow_zoom_in''),
          (''angle'', PStr ''eye_level''),
          (''speed'', PFloat 0.3),
          (''focal_length'', PInt 35)]),
        (''medium'', PDict
         [(''movement'', PStr ''dolly_forward''),
          (''angle'', PStr ''slightly_low''),
          (''speed'', PFloat 0.5),
          (''focal_length'', PInt 50)]),
        (''heavy'', PDict
         [(''movement'', PStr ''push_in_dramatic''),
          (''angle'', PStr ''dutch_tilt_15deg''),
          (''speed'', PFloat 0.8),
          (''focal_length'', PInt 85)])]),
      (''color'', PDict
       [(''light'', PDict
         [(''grade'', PStr ''neutral_cool''),
          (''saturation'', PInt (-5)),
          (''contrast'', PFloat 1.05),
          (''vignette'', PFloat 0.1)]),
        (''medium'', PDict
         [(''grade'', PStr ''mystery_teal''),
          (''saturation'', PInt (-10)),
          (''contrast'', PFloat 1.15),
          (''vignette'', PFloat 0.3)]),
        (''heavy'', PDict
         [(''grade'', PStr ''noir_blue''),
          (''saturation'', PInt (-20)),
          (''contrast'', PFloat 1.35),
          (''vignette'', PFloat 0.5)])]),
      (''vfx'', PDict
       [(''light'', PList [PStr ''subtle_glow_edges'']),
        (''medium'', PList [PStr ''light_rays'', PStr ''dust_particles'']),
        (''heavy'', PList [PStr ''lens_flare_mystery'', PStr ''depth_fog'', PStr ''chromatic_aberration''])]),
      (''ffmpeg'', PStr ''zoompan=z='min(zoom+0.0015,1.5)':d=900,eq=saturation=0.9:contrast=1.15'')]"

definition fear_entry :: pyval where
  "fear_entry = PDict
     [(''description'', PStr ''Viewer anticipating threat''),
      (''camera'', PDict
       [(''light'', PDict
         [(''movement'', PStr ''handheld_slight_shake''),
          (''angle'', PStr ''slightly_low''),
          (''speed'', PFloat 0.6),
          (''focal_length'', PInt 24)]),
        (''medium'', PDict
         [(''movement'', PStr ''dutch_angle_creep''),
          (''angle'', PStr ''tilted_20deg''),
          (''speed'', PFloat 0.4),
          (''focal_length'', PInt 35)]),
        (''heavy'', PDict
         [(''movement'', PStr ''erratic_handheld''),
          (''angle'', PStr ''extreme_dutch_45deg''),
          (''speed'', PFloat 1.0),
          (''focal_length'', PInt 18)])]),
      (''color'', PDict
       [(''light'', PDict
         [(''grade'', PStr ''slightly_desaturated''),
          (''saturation'', PInt (-10)),
          (''contrast'', PFloat 1.10)]),
        (''medium'', PDict
         [(''grade'', PStr ''cold_blue_shadows''),
          (''saturation'', PInt (-20)),
          (''contrast'', PFloat 1.25),
          (''vignette'', PFloat 0.4)]),
        (''heavy'', PDict
         [(''grade'', PStr ''horror_green_tint''),
          (''saturation'', PInt (-30)),
          (''contrast'', PFloat 1.5),
          (''vignette'', PFloat 0.7)])]),
      (''vfx'', PDict
       [(''light'', PList [PStr ''vignette_crawl'']),
        (''medium'', PList [PStr ''shadow_flicker'', PStr ''screen_glitch'']),
        (''heavy'', PList [PStr ''chromatic_shift'', PStr ''distortion_waves'', PStr ''static_burst''])]),
      (''ffmpeg'', PStr ''transform='sin(2*PI*t*1.5)*5',eq=saturation=0.7:contrast=1.5,noise=alls=20:allf=t'')]"

definition triumph_entry :: pyval where
  "triumph_entry = PDict
     [(''description'', PStr ''Viewer experiencing victory''),
      (''camera'', PDict
       [(''light'', PDict
         [(''movement'', PStr ''slow_rise''),
          (''angle'', PStr ''slightly_low''),
          (''speed'', PFloat 0.5),
          (''focal_length'', PInt 50)]),
        (''medium'', PDict
         [(''movement'', PStr ''crane_up_hero''),
          (''angle'', PStr ''low_angle_power''),
          (''speed'', PFloat 0.7),
          (''focal_length'', PInt 35)]),
        (''heavy'', PDict
         [(''movement'', PStr ''drone_orbit_ascend''),
          (''angle'', PStr ''low_heroic''),
          (''speed'', PFloat 1.0),
          (''focal_length'', PInt 24)])]),
      (''color'', PDict
       [(''light'', PDict
         [(''grade'', PStr ''warm_lift''),
          (''saturation'', PInt 10),
          (''contrast'', PFloat 1.05)]),
        (''medium'', PDict
         [(''grade'', PStr ''golden_hour''),
          (''saturation'', PInt 20),
          (''contrast'', PFloat 1.15),
          (''bloom'', PFloat 0.2)]),
        (''heavy'', PDict
         [(''grade'', PStr ''epic_teal_orange''),
          (''saturation'', PInt 35),
          (''contrast'', PFloat 1.30),
          (''bloom'', PFloat 0.4)])]),
      (''vfx'', PDict
       [(''light'', PList [PStr ''soft_glow'']),
        (''medium'', PList [PStr ''light_rays_strong'', PStr ''particle_sparkle'']),
        (''heavy'', PList [PStr ''epic_lens_flare'', PStr ''light_streak'', PStr ''particle_explosion''])]),
      (''ffmpeg'', PStr ''zoompan=z='1':y='max(ih-ih/zoom,0-t*40)':d=900,eq=saturation=1.35:contrast=1.3,flare=0.5:0.5:2.0'')]"

definition tension_entry :: pyval where
  "tension_entry = PDict
     [(''description'', PStr ''Viewer on edge, awaiting resolution''),
      (''camera'', PDict
       [(''light'', PDict
         [(''movement'', PStr ''static_locked''),
          (''angle'', PStr ''eye_level_tight''),
          (''speed'', PFloat 0.0),
          (''focal_length'', PInt 85)]),
        (''medium'', PDict
         [(''movement'', PStr ''micro_shake_anticipation''),
          (''angle'', PStr ''close_up''),
          (''speed'', PFloat 0.2),
          (''focal_length'', PInt 100)]),
        (''heavy'', PDict
         [(''movement'', PStr ''zoom_in_aggressive''),
          (''angle'', PStr ''extreme_close_up''),
          (''speed'', PFloat 1.5),
          (''focal_length'', PInt 135)])]),
      (''color'', PDict
       [(''light'', PDict
         [(''grade'', PStr ''neutral_sharp''),
          (''saturation'', PInt 0),
          (''contrast'', PFloat 1.15)]),
        (''medium'', PDict
         [(''grade'', PStr ''high_contrast_cold''),
          (''saturation'', PInt (-15)),
          (''contrast'', PFloat 1.35)]),
        (''heavy'', PDict
         [(''grade'', PStr ''stark_black_white''),
          (''saturation'', PInt (-50)),
          (''contrast'', PFloat 1.6),
          (''vignette'', PFloat 0.6)])]),
      (''vfx'', PDict
       [(''light'', PList [PStr ''frame_jitter'']),
        (''medium'', PList [PStr ''time_remap_subtle'', PStr ''sound_visualizer'']),
        (''heavy'', PList [PStr ''strobe_flash'', PStr ''frame_skip'', PStr ''reverse_time_glitch''])]),
      (''ffmpeg'', PStr (''zoompan=z='min(zoom+0.003,2.0)':d=900,eq=saturation=0.5:contrast=1.6,vignette='PI/4*0.6'' @ [CHR 0x27]))]"

definition wonder_entry :: pyval where
  "wonder_entry = PDict
     [(''description'', PStr ''Viewer experiencing awe''),
      (''camera'', PDict
       [(''light'', PDict
         [(''movement'', PStr ''slow_pan_reveal''),
          (''angle'', PStr ''eye_level_wide''),
          (''speed'', PFloat 0.3),
          (''focal_length'', PInt 24)]),
        (''medium'', PDict
         [(''movement'', PStr ''crane_rise_majestic''),
          (''angle'', PStr ''ascending''),
          (''speed'', PFloat 0.5),
          (''focal_length'', PInt 35)]),
        (''heavy'', PDict
         [(''movement'', PStr ''orbital_360_slow''),
          (''angle'', PStr ''god_view_high''),
          (''speed'', PFloat 0.7),
          (''focal_length'', PInt 16)])]),
      (''color'', PDict
       [(''light'', PDict
         [(''grade'', PStr ''pastel_dream''),
          (''saturation'', PInt 15),
          (''contrast'', PFloat 0.95)]),
        (''medium'', PDict
         [(''grade'', PStr ''ethereal_glow''),
          (''saturation'', PInt 25),
          (''contrast'', PFloat 0.90),
          (''bloom'', PFloat 0.3)]),
        (''heavy'', PDict
         [(''grade'', PStr ''magic_hour_amplified''),
          (''saturation'', PInt 40),
          (''contrast'', PFloat 0.85),
          (''bloom'', PFloat 0.6)])]),
      (''vfx'', PDict
       [(''light'', PList [PStr ''soft_bokeh'']),
        (''medium'', PList [PStr ''particle_float'', PStr ''light_beams_soft'']),
        (''heavy'', PList [PStr ''god_rays_volumetric'', PStr ''particle_galaxy'', PStr ''lens_orbs''])]),
      (''ffmpeg'', PStr ''eq=saturation=1.4:contrast=0.85:brightness=0.08,gblur=sigma=7:steps=4,flare=0.4:0.4:1.8'')]"

definition urgency_entry :: pyval where
  "urgency_entry = PDict
     [(''description'', PStr ''Viewer feeling time pressure''),
      (''camera'', PDict
       [(''light'', PDict
         [(''movement'', PStr ''quick_cuts_static''),
          (''angle'', PStr ''varying_rapid''),
          (''speed'', PFloat 2.0),
          (''focal_length'', PInt 50)]),
        (''medium'', PDict
         [(''movement'', PStr ''chase_cam_forward''),
          (''angle'', PStr ''pov_handheld''),
          (''speed'', PFloat 3.0),
          (''focal_length'', PInt 28)]),
        (''heavy'', PDict
         [(''movement'', PStr ''frenetic_multi_angle''),
          (''angle'', PStr ''extreme_pov''),
          (''speed'', PFloat 5.0),
          (''focal_length'', PStr ''variable'')])]),
      (''color'', PDict
       [(''light'', PDict
         [(''grade'', PStr ''high_contrast_warm''),
          (''saturation'', PInt 5),
          (''contrast'', PFloat 1.20)]),
        (''medium'', PDict
         [(''grade'', PStr ''action_orange_crush''),
          (''saturation'', PInt 15),
          (''contrast'', PFloat 1.40)]),
        (''heavy'', PDict
         [(''grade'', PStr ''explosive_color_pop''),
          (''saturation'', PInt 30),
          (''contrast'', PFloat 1.60)])]),
      (''vfx'', PDict
       [(''light'', PList [PStr ''speed_lines'']),
        (''medium'', PList [PStr ''motion_trails'', PStr ''frame_blending'']),
        (''heavy'', PList [PStr ''strobe_cuts'', PStr ''whip_transitions'', PStr ''zoom_blur''])]),
      (''ffmpeg'', PStr ''eq=saturation=1.3:contrast=1.6,minterpolate='fps=120:mi_mode=mci',zoompan=z='if(eq(on,1),1.5,zoom-0.01)':d=1'')]"

definition melancholy_entry :: pyval where
  "melancholy_entry = PDict
     [(''description'', PStr ''Viewer experiencing sadness/loss''),
      (''camera'', PDict
       [(''light'', PDict
         [(''movement'', PStr ''slow_dolly_back''),
          (''angle'', PStr ''eye_level_distant''),
          (''speed'', PFloat 0.2),
          (''focal_length'', PInt 50)]),
        (''medium'', PDict
         [(''movement'', PStr ''crane_descend_slow''),
          (''angle'', PStr ''high_looking_down''),
          (''speed'', PFloat 0.3),
          (''focal_length'', PInt 85)]),
        (''heavy'', PDict
         [(''movement'', PStr ''static_hold_long''),
          (''angle'', PStr ''isolated_wide''),
          (''speed'', PFloat 0.0),
          (''focal_length'', PInt 24)])]),
      (''color'', PDict
       [(''light'', PDict
         [(''grade'', PStr ''muted_cool''),
          (''saturation'', PInt (-10)),
          (''contrast'', PFloat 0.95)]),
        (''medium'', PDict
         [(''grade'', PStr ''desaturated_blue''),
          (''saturation'', PInt (-25)),
          (''contrast'', PFloat 0.85),
          (''vignette'', PFloat 0.3)]),
        (''heavy'', PDict
         [(''grade'', PStr ''monochrome_blue_tint''),
          (''saturation'', PInt (-40)),
          (''contrast'', PFloat 0.75),
          (''vignette'', PFloat 0.6)])]),
      (''vfx'', PDict
       [(''light'', PList [PStr ''rain_overlay_light'']),
        (''medium'', PList [PStr ''rain_medium'', PStr ''window_droplets'']),
        (''heavy'', PList [PStr ''heavy_rain'', PStr ''fog_dense'', PStr ''chromatic_aberration_subtle''])]),
      (''ffmpeg'', PStr (''eq=saturation=0.6:contrast=0.75,colorchannelmixer=rr=0.3:rg=0.3:rb=0.4:gr=0.3:gg=0.3:gb=0.4:br=0.3:bg=0.3:bb=0.4,vignette='PI/4*0.6'' @ [CHR 0x27]))]"

definition romance_entry :: pyval where
  "romance_entry = PDict
     [(''description'', PStr ''Intimacy and affection (Tame/Hollywood Safe)''),
      (''camera'', PDict
       [(''light'', PDict
         [(''movement'', PStr ''static_two_shot''),
          (''angle'', PStr ''eye_level''),
          (''speed'', PFloat 0.0),
          (''focal_length'', PInt 50)]),
        (''medium'', PDict
         [(''movement'', PStr ''slow_dolly_in''),
          (''angle'', PStr ''shoulder_level''),
          (''speed'', PFloat 0.2),
          (''focal_length'', PInt 85)]),
        (''heavy'', PDict
         [(''movement'', PStr ''orbit_slow_close''),
          (''angle'', PStr ''eye_level_tight''),
          (''speed'', PFloat 0.3),
          (''focal_length'', PInt 100)])]),
      (''color'', PDict
       [(''light'', PDict
         [(''grade'', PStr ''warm_soft''),
          (''saturation'', PInt 10),
          (''contrast'', PFloat 1.0),
          (''bloom'', PFloat 0.1)]),
        (''medium'', PDict
         [(''grade'', PStr ''golden_glow''),
          (''saturation'', PInt 15),
          (''contrast'', PFloat 1.1),
          (''vignette'', PFloat 0.2)]),
        (''heavy'', PDict
         [(''grade'', PStr ''deep_passion''),
          (''saturation'', PInt 20),
          (''contrast'', PFloat 1.2),
          (''blur_edges'', PBool True)])]),
      (''vfx'', PDict
       [(''light'', PList [PStr ''soft_glow_subtle'']),
        (''medium'', PList [PStr ''bokeh_particles'', PStr ''light_leak_warm'']),
        (''heavy'', PList [PStr ''dreamy_haze'', PStr ''heartbeat_vignette''])]),
      (''ffmpeg'', PStr (''eq=saturation=1.2:contrast=1.1,gblur=sigma=2:steps=1,vignette='PI/4*0.2'' @ [CHR 0x27]))]"

definition joy_entry :: pyval where
  "joy_entry = PDict
     [(''description'', PStr ''Happiness, humor, and comedy''),
      (''camera'', PDict
       [(''light'', PDict
         [(''movement'', PStr ''static_wide''),
          (''angle'', PStr ''eye_level''),
          (''speed'', PFloat 0.0),
          (''focal_length'', PInt 35)]),
        (''medium'', PDict
         [(''movement'', PStr ''whip_pan_reveal''),
          (''angle'', PStr ''slightly_low''),
          (''speed'', PFloat 1.5),
          (''focal_length'', PInt 24)]),
        (''heavy'', PDict
         [(''movement'', PStr ''snap_zoom_funny''),
          (''angle'', PStr ''high_angle_exaggerated''),
          (''speed'', PFloat 3.0),
          (''focal_length'', PInt 18)])]),
      (''color'', PDict
       [(''light'', PDict
         [(''grade'', PStr ''bright_natural''),
          (''saturation'', PInt 5),
          (''contrast'', PFloat 1.0),
          (''brightness'', PFloat 0.05)]),
        (''medium'', PDict
         [(''grade'', PStr ''vibrant_pop''),
          (''saturation'', PInt 20),
          (''contrast'', PFloat 1.1),
          (''brightness'', PFloat 0.1)]),
        (''heavy'', PDict
         [(''grade'', PStr ''candy_crush''),
          (''saturation'', PInt 35),
          (''contrast'', PFloat 1.2),
          (''gamma'', PFloat 1.1)])]),
      (''vfx'', PDict
       [(''light'', PList [PStr ''clean_sharp'']),
        (''medium'', PList [PStr ''confetti_subtle'', PStr ''lens_flare_bright'']),
        (''heavy'', PList [PStr ''speed_lines_comic'', PStr ''star_burst''])]),
      (''ffmpeg'', PStr ''eq=brightness=0.1:saturation=1.3:contrast=1.1'')]"

definition nostalgia_entry :: pyval where
  "nostalgia_entry = PDict
     [(''description'', PStr ''Sentimental memories and flashbacks''),
      (''camera'', PDict
       [(''light'', PDict
         [(''movement'', PStr ''handheld_gentle''),
          (''angle'', PStr ''eye_level''),
          (''speed'', PFloat 0.4),
          (''focal_length'', PInt 50)]),
        (''medium'', PDict
         [(''movement'', PStr ''slow_pan_drift''),
          (''angle'', PStr ''varying''),
          (''speed'', PFloat 0.3),
          (''focal_length'', PInt 35)]),
        (''heavy'', PDict
         [(''movement'', PStr ''floating_cam''),
          (''angle'', PStr ''subjective_pov''),
          (''speed'', PFloat 0.2),
          (''focal_length'', PInt 28)])]),
      (''color'', PDict
       [(''light'', PDict
         [(''grade'', PStr ''sepia_tint_light''),
          (''saturation'', PInt (-10)),
          (''contrast'', PFloat 0.95),
          (''warmth'', PFloat 0.1)]),
        (''medium'', PDict
         [(''grade'', PStr ''faded_film''),
          (''saturation'', PInt (-25)),
          (''contrast'', PFloat 0.9),
          (''grain'', PFloat 0.2)]),
        (''heavy'', PDict
         [(''grade'', PStr ''memory_lane''),
          (''saturation'', PInt (-40)),
          (''contrast'', PFloat 0.85),
          (''blur'', PFloat 0.1),
          (''grain'', PFloat 0.4)])]),
      (''vfx'', PDict
       [(''light'', PList [PStr ''dust_motes'']),
        (''medium'', PList [PStr ''film_grain_16mm'', PStr ''vignette_soft'']),
        (''heavy'', PList [PStr ''film_burn'', PStr ''projector_flicker'', PStr ''heavy_grain''])]),
      (''ffmpeg'', PStr (''colorchannelmixer=.393:.769:.189:0:.349:.686:.168:0:.272:.534:.131,noise=alls=20:allf=t,vignette='PI/4*0.4'' @ [CHR 0x27]))]"

definition rage_entry :: pyval where
  "rage_entry = PDict
     [(''description'', PStr ''Anger, fury, and revenge''),
      (''camera'', PDict
       [(''light'', PDict
         [(''movement'', PStr ''static_tense''),
          (''angle'', PStr ''eye_level''),
          (''speed'', PFloat 0.0),
          (''focal_length'', PInt 50)]),
        (''medium'', PDict
         [(''movement'', PStr ''shaky_cam_build''),
          (''angle'', PStr ''low_angle''),
          (''speed'', PFloat 1.0),
          (''focal_length'', PInt 35)]),
        (''heavy'', PDict
         [(''movement'', PStr ''erratic_chaos''),
          (''angle'', PStr ''dutch_extreme''),
          (''speed'', PFloat 4.0),
          (''focal_length'', PInt 24)])]),
      (''color'', PDict
       [(''light'', PDict
         [(''grade'', PStr ''cold_steel''),
          (''saturation'', PInt (-10)),
          (''contrast'', PFloat 1.2)]),
        (''medium'', PDict
         [(''grade'', PStr ''simmering_heat''),
          (''saturation'', PInt 0),
          (''contrast'', PFloat 1.4),
          (''red_tint'', PFloat 0.1)]),
        (''heavy'', PDict
         [(''grade'', PStr ''seeing_red''),
          (''saturation'', PInt 20),
          (''contrast'', PFloat 1.7),
          (''red_crush'', PFloat 0.3)])]),
      (''vfx'', PDict
       [(''light'', PList [PStr ''heat_haze_subtle'']),
        (''medium'', PList [PStr ''camera_shake_impact'', PStr ''distortion_edges'']),
        (''heavy'', PList [PStr ''chromatic_aberration_strong'', PStr ''red_flash'', PStr ''screen_tear''])]),
      (''ffmpeg'', PStr (''colorbalance=rs=0.2:rm=0.2:rh=0.2,eq=contrast=1.5:saturation=1.2,transform='sin(2*PI*t*10)*5'' @ [CHR 0x27]))]"

definition serenity_entry :: pyval where
  "serenity_entry = PDict
     [(''description'', PStr ''Calm, peace, and nature''),
      (''camera'', PDict
       [(''light'', PDict
         [(''movement'', PStr ''static_locked''),
          (''angle'', PStr ''eye_level''),
          (''speed'', PFloat 0.0),
          (''focal_length'', PInt 35)]),
        (''medium'', PDict
         [(''movement'', PStr ''slow_pan_landscape''),
          (''angle'', PStr ''wide_angle''),
          (''speed'', PFloat 0.1),
          (''focal_length'', PInt 24)]),
        (''heavy'', PDict
         [(''movement'', PStr ''drone_hover''),
          (''angle'', PStr ''god_view''),
          (''speed'', PFloat 0.05),
          (''focal_length'', PInt 16)])]),
      (''color'', PDict
       [(''light'', PDict
         [(''grade'', PStr ''natural_balanced''),
          (''saturation'', PInt 0),
          (''contrast'', PFloat 1.0)]),
        (''medium'', PDict
         [(''grade'', PStr ''cool_breeze''),
          (''saturation'', PInt 5),
          (''contrast'', PFloat 0.95),
          (''blue_tint'', PFloat 0.05)]),
        (''heavy'', PDict
         [(''grade'', PStr ''zen_garden''),
          (''saturation'', PInt 10),
          (''contrast'', PFloat 0.9),
          (''diffusion'', PFloat 0.2)])]),
      (''vfx'', PDict
       [(''light'', PList [PStr ''clean_frame'']),
        (''medium'', PList [PStr ''mist_layer'', PStr ''slow_particles'']),
        (''heavy'', PList [PStr ''god_rays_subtle'', PStr ''water_shimmer''])]),
      (''ffmpeg'', PStr ''eq=contrast=0.95:saturation=1.1,colorbalance=bs=0.1'')]"

definition EMOTIONAL_INDEX :: "(string \<times> pyval) list" where
  "EMOTIONAL_INDEX =
    [(''curiosity'', curiosity_entry),
     (''fear'', fear_entry),
     (''triumph'', triumph_entry),
     (''tension'', tension_entry),
     (''wonder'', wonder_entry),
     (''urgency'', urgency_entry),
     (''melancholy'', melancholy_entry),
     (''romance'', romance_entry),
     (''joy'', joy_entry),
     (''nostalgia'', nostalgia_entry),
     (''rage'', rage_entry),
     (''serenity'', serenity_entry)]"

subsection \<open>EmotionalIndexManager\<close>

text \<open>
  \<open>get_all_emotions\<close> is \<open>list(self.index.keys())\<close>.  \<open>get_emotion_profile\<close> falls back
  to the whole curiosity entry when the emotion is not a key of the index, and otherwise
  builds the profile dictionary field by field, in the order of the source's dictionary
  display.
\<close>

definition get_all_emotions :: "string list" where
  "get_all_emotions = map fst EMOTIONAL_INDEX"

definition get_emotion_profile :: "string \<Rightarrow> string \<Rightarrow> exn + pyval" where
  "get_emotion_profile emotion intensity =
     (case map_of EMOTIONAL_INDEX emotion of
        None \<Rightarrow> Inr (dict_get EMOTIONAL_INDEX ''curiosity'' (PDict []))
      | Some profile \<Rightarrow>
        bind_exn (py_get profile ''description'' PNone) (\<lambda>description.
        bind_exn (py_get profile ''camera'' (PDict [])) (\<lambda>cam.
        bind_exn (py_get cam intensity (PDict [])) (\<lambda>camera.
        bind_exn (py_get profile ''color'' (PDict [])) (\<lambda>col.
        bind_exn (py_get col intensity (PDict [])) (\<lambda>color.
        bind_exn (py_get profile ''vfx'' (PDict [])) (\<lambda>fx.
        bind_exn (py_get fx intensity (PList [])) (\<lambda>vfx.
        bind_exn (py_get profile ''ffmpeg'' (PStr '''')) (\<lambda>ffmpeg.
        Inr (PDict
          [(''emotion'', PStr emotion),
           (''intensity'', PStr intensity),
           (''description'', description),
           (''camera'', camera),
           (''color'', color),
           (''vfx'', vfx),
           (''ffmpeg'', ffmpeg)]))))))))))"

section \<open>The store, the clock and the effect monad\<close>

text \<open>
  The orchestrator talks to a Redis server through a client object and reads the wall
  clock.  Both are the environment of the program, and the model makes them explicit in one
  state record:

  \<^item> \<open>hashes\<close> is the keyspace of hash keys, in creation order: each key holds its field
    dictionary and the expiry set on it, if any (\<open>httl\<close>, in seconds).  A key that is absent
    reads as the empty dictionary, as \<open>HGETALL\<close> does.  The model records the expiry and
    never removes a key because of it.
  \<^item> \<open>lists\<close> gives the content of every list key, head first; an absent list is empty.
    The only list keys the code touches are the six queue names.  A queue element is the
    dictionary that the source serialises with \<open>json.dumps\<close>: the model keeps the
    dictionary and leaves the encoding out.
  \<^item> \<open>calls\<close> counts the client calls made so far, and \<open>fault\<close> says for every call
    number whether that call raises (\<open>Some msg\<close>) or is served (\<open>None\<close>).  A call
    that raises leaves the data untouched.
  \<^item> \<open>tick\<close> counts the readings of \<open>time.time()\<close> so far and \<open>clock\<close> gives the value
    of every reading.  Nothing orders the readings: the wall clock may be set back.
  \<^item> \<open>fround\<close> is the rounding of the machine's float arithmetic.  A float is the real
    number it denotes, and the product, difference or sum of two floats is the exact result
    rounded by \<open>fround\<close>.  The model assumes nothing about it.

  A value that the client cannot encode is refused with a \<open>DataError\<close>.  A value that it
  can encode is kept as the Python value that was written; that a read gives it back as a
  string is not modelled.
\<close>

record hentry =
  hfields :: pydict
  httl :: "nat option"

record world =
  hashes :: "(string \<times> hentry) list"
  lists :: "string \<Rightarrow> pydict list"
  calls :: nat
  fault :: "nat \<Rightarrow> string option"
  tick :: nat
  clock :: "nat \<Rightarrow> real"
  fround :: "real \<Rightarrow> real"

text \<open>
  A computation with effects takes the state and returns the state together with either
  the exception it raised or its result.
\<close>

definition return_io :: "'r \<Rightarrow> 's \<Rightarrow> (exn + 'r) \<times> 's" where
  "return_io x s = (Inr x, s)"

definition bind_io ::
  "('s \<Rightarrow> (exn + 'a) \<times> 's) \<Rightarrow> ('a \<Rightarrow> 's \<Rightarrow> (exn + 'b) \<times> 's) \<Rightarrow> 's \<Rightarrow> (exn + 'b) \<times> 's" where
  "bind_io m f s = (case m s of (Inl e, s') \<Rightarrow> (Inl e, s') | (Inr x, s') \<Rightarrow> f x s')"

definition try_io ::
  "('s \<Rightarrow> (exn + 'a) \<times> 's) \<Rightarrow> (exn \<Rightarrow> 's \<Rightarrow> (exn + 'a) \<times> 's) \<Rightarrow> 's \<Rightarrow> (exn + 'a) \<times> 's" where
  "try_io m handler s = (case m s of (Inl e, s') \<Rightarrow> handler e s' | (Inr x, s') \<Rightarrow> (Inr x, s'))"

definition lift_exn :: "exn + 'a \<Rightarrow> 's \<Rightarrow> (exn + 'a) \<times> 's" where
  "lift_exn r s = (r, s)"

text \<open>\<open>for x in xs: body(x)\<close>, left at the first exception.\<close>

fun for_io :: "'x list \<Rightarrow> ('x \<Rightarrow> 's \<Rightarrow> (exn + unit) \<times> 's) \<Rightarrow> 's \<Rightarrow> (exn + unit) \<times> 's" where
  "for_io [] body s = (Inr (), s)"
| "for_io (x # xs) body s =
     (case body x s of (Inl e, s') \<Rightarrow> (Inl e, s') | (Inr u, s') \<Rightarrow> for_io xs body s')"

subsection \<open>The clock\<close>

definition time_time :: "'a world_scheme \<Rightarrow> (exn + real) \<times> 'a world_scheme" where
  "time_time w = (Inr (clock w (tick w)), w\<lparr>tick := Suc (tick w)\<rparr>)"

text \<open>Float arithmetic: the exact result, rounded.\<close>

definition fmul :: "real \<Rightarrow> real \<Rightarrow> 'a world_scheme \<Rightarrow> (exn + real) \<times> 'a world_scheme" where
  "fmul x y w = (Inr (fround w (x * y)), w)"

definition fsub :: "real \<Rightarrow> real \<Rightarrow> 'a world_scheme \<Rightarrow> (exn + real) \<times> 'a world_scheme" where
  "fsub x y w = (Inr (fround w (x - y)), w)"

definition fadd :: "real \<Rightarrow> real \<Rightarrow> 'a world_scheme \<Rightarrow> (exn + real) \<times> 'a world_scheme" where
  "fadd x y w = (Inr (fround w (x + y)), w)"

text \<open>\<open>int(x)\<close> truncates towards zero; \<open>str\<close> of an integer is its decimal numeral.\<close>

definition py_int :: "real \<Rightarrow> int" where
  "py_int x = (if 0 \<le> x then \<lfloor>x\<rfloor> else \<lceil>x\<rceil>)"

function digits :: "nat \<Rightarrow> string" where
  "digits n =
     (if n < 10 then [''0123456789'' ! n]
      else digits (n div 10) @ [''0123456789'' ! (n mod 10)])"
  by pat_completeness auto
termination
  by (relation "measure id") auto

definition str_int :: "int \<Rightarrow> string" where
  "str_int i = (if i < 0 then ''-'' @ digits (nat (- i)) else digits (nat i))"

subsection \<open>The client calls\<close>

text \<open>
  Every method of the client is one call: it raises if the fault plan says so, and is
  served otherwise.  \<open>scan_iter\<close> is modelled as one call that yields the matching keys;
  both patterns of the source end in \<open>*\<close> after a fixed prefix, so matching is a prefix
  test.

  The client encodes the arguments of a command before it sends the command.  It accepts
  strings, integers and floats; for \<open>None\<close>, a boolean, a list or a dictionary it raises
  \<open>DataError\<close> with the name of the type, and nothing is sent.  \<open>redis_refuse\<close> is such a
  call: the connection is taken first, so a fault of the connection comes before the
  \<open>DataError\<close>.  \<open>hset\<close> with a mapping hands the fields over in the order of the
  mapping, so the first value that cannot be encoded names the type.
\<close>

fun encodable :: "pyval \<Rightarrow> bool" where
  "encodable (PStr s) = True"
| "encodable (PInt i) = True"
| "encodable (PFloat x) = True"
| "encodable v = False"

fun type_name :: "pyval \<Rightarrow> string" where
  "type_name PNone = ''NoneType''"
| "type_name (PBool b) = ''bool''"
| "type_name (PInt i) = ''int''"
| "type_name (PFloat x) = ''float''"
| "type_name (PStr s) = ''str''"
| "type_name (PList xs) = ''list''"
| "type_name (PDict d) = ''dict''"

definition redis_call ::
  "('a world_scheme \<Rightarrow> 'r \<times> 'a world_scheme) \<Rightarrow> 'a world_scheme \<Rightarrow> (exn + 'r) \<times> 'a world_scheme" where
  "redis_call serve w =
     (case fault w (calls w) of
        Some msg \<Rightarrow> (Inl (RedisError msg), w\<lparr>calls := Suc (calls w)\<rparr>)
      | None \<Rightarrow> (case serve (w\<lparr>calls := Suc (calls w)\<rparr>) of (r, w') \<Rightarrow> (Inr r, w')))"

definition redis_refuse :: "exn \<Rightarrow> 'a world_scheme \<Rightarrow> (exn + 'r) \<times> 'a world_scheme" where
  "redis_refuse e w =
     (case fault w (calls w) of
        Some msg \<Rightarrow> (Inl (RedisError msg), w\<lparr>calls := Suc (calls w)\<rparr>)
      | None \<Rightarrow> (Inl e, w\<lparr>calls := Suc (calls w)\<rparr>))"

definition hfields_of :: "(string \<times> hentry) list \<Rightarrow> string \<Rightarrow> pydict" where
  "hfields_of hs key = (case map_of hs key of None \<Rightarrow> [] | Some h \<Rightarrow> hfields h)"

definition httl_of :: "(string \<times> hentry) list \<Rightarrow> string \<Rightarrow> nat option" where
  "httl_of hs key = (case map_of hs key of None \<Rightarrow> None | Some h \<Rightarrow> httl h)"

definition startswith :: "string \<Rightarrow> string \<Rightarrow> bool" where
  "startswith s pre = (take (length pre) s = pre)"

definition ping :: "'a world_scheme \<Rightarrow> (exn + unit) \<times> 'a world_scheme" where
  "ping = redis_call (\<lambda>w. ((), w))"

definition hset :: "string \<Rightarrow> pydict \<Rightarrow> 'a world_scheme \<Rightarrow> (exn + unit) \<times> 'a world_scheme" where
  "hset key mapping =
     (case filter (\<lambda>(k, v). \<not> encodable v) mapping of
        [] \<Rightarrow> redis_call (\<lambda>w. ((),
          w\<lparr>hashes := AList.update key
               \<lparr>hfields = dict_update (hfields_of (hashes w) key) mapping,
                httl = httl_of (hashes w) key\<rparr> (hashes w)\<rparr>))
      | (k, v) # rest \<Rightarrow> redis_refuse (DataError (type_name v)))"

definition expire :: "string \<Rightarrow> nat \<Rightarrow> 'a world_scheme \<Rightarrow> (exn + bool) \<times> 'a world_scheme" where
  "expire key seconds = redis_call (\<lambda>w.
     (case map_of (hashes w) key of
        None \<Rightarrow> (False, w)
      | Some h \<Rightarrow> (True, w\<lparr>hashes := AList.update key (h\<lparr>httl := Some seconds\<rparr>) (hashes w)\<rparr>)))"

definition hgetall :: "string \<Rightarrow> 'a world_scheme \<Rightarrow> (exn + pydict) \<times> 'a world_scheme" where
  "hgetall key = redis_call (\<lambda>w. (hfields_of (hashes w) key, w))"

definition rpush :: "string \<Rightarrow> pydict \<Rightarrow> 'a world_scheme \<Rightarrow> (exn + nat) \<times> 'a world_scheme" where
  "rpush key payload = redis_call (\<lambda>w.
     (Suc (length (lists w key)), w\<lparr>lists := (lists w)(key := lists w key @ [payload])\<rparr>))"

definition llen :: "string \<Rightarrow> 'a world_scheme \<Rightarrow> (exn + nat) \<times> 'a world_scheme" where
  "llen key = redis_call (\<lambda>w. (length (lists w key), w))"

definition delete :: "string \<Rightarrow> 'a world_scheme \<Rightarrow> (exn + unit) \<times> 'a world_scheme" where
  "delete key = redis_call (\<lambda>w. ((),
     w\<lparr>hashes := AList.delete key (hashes w), lists := (lists w)(key := [])\<rparr>))"

definition scan_iter :: "string \<Rightarrow> 'a world_scheme \<Rightarrow> (exn + string list) \<times> 'a world_scheme" where
  "scan_iter pre = redis_call (\<lambda>w. (filter (\<lambda>k. startswith k pre) (map fst (hashes w)), w))"

section \<open>The store-level orchestrator (redis\_orchestrator.py)\<close>

datatype ServiceStatus = IDLE | PROCESSING | COMPLETED | FAILED | PAUSED

fun status_value :: "ServiceStatus \<Rightarrow> string" where
  "status_value IDLE = ''idle''"
| "status_value PROCESSING = ''processing''"
| "status_value COMPLETED = ''completed''"
| "status_value FAILED = ''failed''"
| "status_value PAUSED = ''paused''"

text \<open>
  The dataclass \<open>PipelineJob\<close>.  Its fields carry the prefix \<open>pj_\<close> here, so that the
  method parameters of the same names keep theirs.  \<open>new_PipelineJob\<close> is the constructor
  as \<open>submit_job\<close> calls it: \<open>status\<close>, \<open>started_at\<close> and \<open>completed_at\<close> take their
  defaults and \<open>__post_init__\<close> stamps \<open>created_at\<close> from the clock.
\<close>

record PipelineJob =
  pj_job_id :: string
  pj_video_id :: string
  pj_emotion :: string
  pj_intensity :: string
  pj_status :: string
  pj_created_at :: real
  pj_started_at :: "real option"
  pj_completed_at :: "real option"
  pj_metadata :: pydict

definition new_PipelineJob ::
  "string \<Rightarrow> string \<Rightarrow> string \<Rightarrow> string \<Rightarrow> pydict \<Rightarrow> 'a world_scheme
     \<Rightarrow> (exn + PipelineJob) \<times> 'a world_scheme" where
  "new_PipelineJob job_id video_id emotion intensity metadata =
     bind_io time_time (\<lambda>now.
     return_io
       \<lparr>pj_job_id = job_id, pj_video_id = video_id, pj_emotion = emotion,
        pj_intensity = intensity, pj_status = status_value IDLE, pj_created_at = now,
        pj_started_at = None, pj_completed_at = None, pj_metadata = metadata\<rparr>)"

definition py_optional :: "real option \<Rightarrow> pyval" where
  "py_optional x = (case x of None \<Rightarrow> PNone | Some v \<Rightarrow> PFloat v)"

definition asdict :: "PipelineJob \<Rightarrow> pydict" where
  "asdict job =
     [(''job_id'', PStr (pj_job_id job)),
      (''video_id'', PStr (pj_video_id job)),
      (''emotion'', PStr (pj_emotion job)),
      (''intensity'', PStr (pj_intensity job)),
      (''status'', PStr (pj_status job)),
      (''created_at'', PFloat (pj_created_at job)),
      (''started_at'', py_optional (pj_started_at job)),
      (''completed_at'', py_optional (pj_completed_at job)),
      (''metadata'', PDict (pj_metadata job))]"

definition queues :: "(string \<times> string) list" where
  "queues =
     [(''oracle'', ''pipeline:queue:oracle''),
      (''trickster'', ''pipeline:queue:trickster''),
      (''cartographer'', ''pipeline:queue:cartographer''),
      (''spectacle'', ''pipeline:queue:spectacle''),
      (''ironist'', ''pipeline:queue:ironist''),
      (''dlq'', ''pipeline:queue:dlq'')]"

definition state_prefix :: string where
  "state_prefix = ''pipeline:state''"

definition job_key_of :: "string \<Rightarrow> string" where
  "job_key_of job_id = state_prefix @ '':'' @ job_id"

text \<open>\<open>x or {}\<close> for an optional dictionary, and the truth value of an optional string.\<close>

definition or_empty :: "pydict option \<Rightarrow> pydict" where
  "or_empty metadata = (case metadata of None \<Rightarrow> [] | Some m \<Rightarrow> m)"

definition truthy :: "string option \<Rightarrow> bool" where
  "truthy s = (case s of None \<Rightarrow> False | Some v \<Rightarrow> v \<noteq> [])"

definition str_of :: "string option \<Rightarrow> string" where
  "str_of s = (case s of None \<Rightarrow> [] | Some v \<Rightarrow> v)"

definition submit_job ::
  "string \<Rightarrow> string \<Rightarrow> string \<Rightarrow> pydict option \<Rightarrow> 'a world_scheme
     \<Rightarrow> (exn + string) \<times> 'a world_scheme" where
  "submit_job video_id emotion intensity metadata =
     bind_io time_time (\<lambda>now.
     bind_io (fmul now 1000) (\<lambda>millis.
     let job_id = video_id @ ''_'' @ str_int (py_int millis) in
     bind_io (new_PipelineJob job_id video_id emotion intensity (or_empty metadata)) (\<lambda>job.
     let job_key = job_key_of job_id in
     bind_io (hset job_key (asdict job)) (\<lambda>_.
     bind_io (expire job_key 86400) (\<lambda>_.
     bind_io (lift_exn (subscript queues ''oracle'')) (\<lambda>queue_key.
     bind_io (rpush queue_key (asdict job)) (\<lambda>_.
     return_io job_id)))))))"

definition get_job_status ::
  "string \<Rightarrow> 'a world_scheme \<Rightarrow> (exn + pydict option) \<times> 'a world_scheme" where
  "get_job_status job_id =
     bind_io (hgetall (job_key_of job_id)) (\<lambda>job_data.
     return_io (if job_data \<noteq> [] then Some job_data else None))"

definition update_job_status ::
  "string \<Rightarrow> ServiceStatus \<Rightarrow> string option \<Rightarrow> string option \<Rightarrow> 'a world_scheme
     \<Rightarrow> (exn + unit) \<times> 'a world_scheme" where
  "update_job_status job_id status service error =
     (let job_key = job_key_of job_id in
      bind_io time_time (\<lambda>updated_at.
      let update = [(''status'', PStr (status_value status)), (''updated_at'', PFloat updated_at)] in
      bind_io
        (if status = PROCESSING \<and> truthy service then
           bind_io time_time (\<lambda>started_at.
           return_io (update @ [(''current_service'', PStr (str_of service)),
                                (''started_at'', PFloat started_at)]))
         else if status = COMPLETED then
           bind_io time_time (\<lambda>completed_at.
           return_io (update @ [(''completed_at'', PFloat completed_at)]))
         else if status = FAILED \<and> truthy error then
           return_io (update @ [(''error'', PStr (str_of error))])
         else return_io update) (\<lambda>update.
      hset job_key update)))"

text \<open>\<open>enqueue\<close> serialises the job data it is given and appends it to a queue.\<close>

definition enqueue ::
  "string \<Rightarrow> pydict \<Rightarrow> 'a world_scheme \<Rightarrow> (exn + bool) \<times> 'a world_scheme" where
  "enqueue service job_data =
     (if service \<notin> set (map fst queues) then return_io False
      else
        bind_io (lift_exn (subscript queues service)) (\<lambda>queue_key.
        bind_io (rpush queue_key job_data) (\<lambda>_.
        return_io True)))"

definition move_to_dlq ::
  "string \<Rightarrow> string \<Rightarrow> 'a world_scheme \<Rightarrow> (exn + unit) \<times> 'a world_scheme" where
  "move_to_dlq job_id error =
     bind_io (hgetall (job_key_of job_id)) (\<lambda>job_data.
     if job_data \<noteq> [] then
       let job_data = AList.update ''error'' (PStr error) job_data in
       bind_io time_time (\<lambda>moved_at.
       let job_data = AList.update ''moved_to_dlq_at'' (PFloat moved_at) job_data in
       bind_io (lift_exn (subscript queues ''dlq'')) (\<lambda>queue_key.
       bind_io (rpush queue_key job_data) (\<lambda>_.
       return_io ())))
     else return_io ())"

record health =
  redis_connected :: bool
  queues_accessible :: bool
  emotional_index_loaded :: bool

text \<open>
  \<open>health_check\<close> has three \<open>try\<close> blocks.  The handler of the first one returns the
  dictionary as it stands; the handlers of the other two only log.
\<close>

definition health_check :: "'a world_scheme \<Rightarrow> health \<times> 'a world_scheme" where
  "health_check w =
     (let health = \<lparr>redis_connected = False, queues_accessible = False,
                    emotional_index_loaded = False\<rparr> in
      case ping w of
        (Inl e, w1) \<Rightarrow> (health, w1)
      | (Inr u, w1) \<Rightarrow>
          let health = health\<lparr>redis_connected := True\<rparr> in
          (case for_io (map snd queues) (\<lambda>queue_key. bind_io (llen queue_key) (\<lambda>_. return_io ())) w1 of
             (r2, w2) \<Rightarrow>
               let health = (case r2 of Inl e \<Rightarrow> health | Inr u \<Rightarrow> health\<lparr>queues_accessible := True\<rparr>) in
               (case scan_iter ''emotional_vertices:'' w2 of
                  (Inl e, w3) \<Rightarrow> (health, w3)
                | (Inr keys, w3) \<Rightarrow> (health\<lparr>emotional_index_loaded := (24 \<le> length keys)\<rparr>, w3))))"

definition reset_pipeline :: "bool \<Rightarrow> 'a world_scheme \<Rightarrow> bool \<times> 'a world_scheme" where
  "reset_pipeline confirm w =
     (if \<not> confirm then (False, w)
      else
        case bind_io (for_io (map snd queues) delete) (\<lambda>_.
             bind_io (scan_iter (state_prefix @ '':'')) (\<lambda>keys.
             for_io keys delete)) w of
          (Inl e, w') \<Rightarrow> (False, w')
        | (Inr u, w') \<Rightarrow> (True, w'))"

section \<open>The profile check of the cinematography engine (cinematography\_engine.py)\<close>

text \<open>
  \<open>validate_profile\<close> is the one method of the engine that decides a branch of the
  driver.  It collects its error messages in order and accepts when there are none.
\<close>

definition validate_profile :: "pyval \<Rightarrow> bool \<times> string list" where
  "validate_profile profile =
     (case profile of
        PDict d \<Rightarrow>
          let errors = concat (map (\<lambda>key. if key \<notin> set (map fst d)
                                           then [''Missing required key: '' @ key] else [])
                                   [''camera'', ''color'', ''vfx'']);
              errors = errors @
                (case dict_get d ''camera'' (PDict []) of
                   PDict camera \<Rightarrow>
                     if ''movement'' \<notin> set (map fst camera)
                     then [''Camera must have 'movement' field''] else []
                 | _ \<Rightarrow> [''Camera must be a dictionary'']);
              errors = errors @
                (case dict_get d ''color'' (PDict []) of
                   PDict color \<Rightarrow> []
                 | _ \<Rightarrow> [''Color must be a dictionary'']);
              errors = errors @
                (case dict_get d ''vfx'' (PList []) of
                   PList vfx \<Rightarrow> []
                 | _ \<Rightarrow> [''VFX must be a list''])
          in (length errors = 0, errors)
      | _ \<Rightarrow> (False, [''Profile must be a dictionary'']))"

section \<open>The driver (pipeline\_orchestrator.py)\<close>

text \<open>
  The driver object owns the store-level orchestrator, so its state extends the state of
  the store by the availability flag that the constructor sets and the statistics
  counters.
\<close>

record pipeline = world +
  redis_available :: bool
  jobs_submitted :: nat
  jobs_completed :: nat
  jobs_failed :: nat
  total_processing_time :: real

definition submit_video_job_body ::
  "string \<Rightarrow> string \<Rightarrow> string \<Rightarrow> pydict option \<Rightarrow> 'a pipeline_scheme
     \<Rightarrow> (exn + string option) \<times> 'a pipeline_scheme" where
  "submit_video_job_body video_id emotion intensity metadata =
     (if emotion \<notin> set get_all_emotions then return_io None
      else if intensity \<notin> set [''light'', ''medium'', ''heavy''] then return_io None
      else
        bind_io (lift_exn (get_emotion_profile emotion intensity)) (\<lambda>profile.
        case validate_profile profile of (is_valid, errors) \<Rightarrow>
        if \<not> is_valid then return_io None
        else
          bind_io (\<lambda>p.
            if redis_available p then submit_job video_id emotion intensity metadata p
            else bind_io time_time (\<lambda>now.
                 bind_io (fmul now 1000) (\<lambda>millis.
                 return_io (video_id @ ''_'' @ str_int (py_int millis)))) p) (\<lambda>job_id.
          (\<lambda>p. return_io (Some job_id) (p\<lparr>jobs_submitted := jobs_submitted p + 1\<rparr>)))))"

text \<open>The \<open>except Exception\<close> clause of \<open>submit_video_job\<close> turns every exception into \<open>None\<close>.\<close>

definition submit_video_job ::
  "string \<Rightarrow> string \<Rightarrow> string \<Rightarrow> pydict option \<Rightarrow> 'a pipeline_scheme
     \<Rightarrow> string option \<times> 'a pipeline_scheme" where
  "submit_video_job video_id emotion intensity metadata p =
     (case submit_video_job_body video_id emotion intensity metadata p of
        (Inl e, p') \<Rightarrow> (None, p')
      | (Inr job_id, p') \<Rightarrow> (job_id, p'))"

text \<open>
  \<open>process_job\<close>.  Between the status updates the source looks the profile up, renders
  the filter chain and runs the quality gate on the colour settings.  These steps are pure,
  raise on no value that the index or its fallback yields, and their results reach only
  the log; the model keeps the clock readings and the store calls, in the order of the
  source.  The handler of the \<open>try\<close> block counts the failure and moves the job to the
  dead-letter queue; an exception raised there leaves \<open>process_job\<close>.
\<close>

definition process_job_body ::
  "string \<Rightarrow> 'a pipeline_scheme \<Rightarrow> (exn + bool) \<times> 'a pipeline_scheme" where
  "process_job_body job_id =
     bind_io time_time (\<lambda>start_time.
     (\<lambda>p.
       if \<not> redis_available p then return_io False p
       else
         bind_io (get_job_status job_id) (\<lambda>job_status.
         case job_status of
           None \<Rightarrow> return_io False
         | Some job_data \<Rightarrow>
             bind_io (update_job_status job_id PROCESSING (Some ''oracle'') None) (\<lambda>_.
             bind_io (update_job_status job_id PROCESSING (Some ''trickster'') None) (\<lambda>_.
             bind_io (update_job_status job_id PROCESSING (Some ''cartographer'') None) (\<lambda>_.
             bind_io (update_job_status job_id PROCESSING (Some ''spectacle'') None) (\<lambda>_.
             bind_io (update_job_status job_id PROCESSING (Some ''ironist'') None) (\<lambda>_.
             bind_io time_time (\<lambda>end_time.
             bind_io (fsub end_time start_time) (\<lambda>elapsed.
             bind_io (update_job_status job_id COMPLETED None None) (\<lambda>_.
             (\<lambda>p. bind_io (fadd (total_processing_time p) elapsed) (\<lambda>total_time.
                  (\<lambda>p. return_io True
                     (p\<lparr>jobs_completed := jobs_completed p + 1,
                        total_processing_time := total_time\<rparr>))) p)))))))))) p))"

definition process_job ::
  "string \<Rightarrow> 'a pipeline_scheme \<Rightarrow> (exn + bool) \<times> 'a pipeline_scheme" where
  "process_job job_id =
     try_io (process_job_body job_id) (\<lambda>e p.
       let p = p\<lparr>jobs_failed := jobs_failed p + 1\<rparr> in
       if redis_available p
       then bind_io (move_to_dlq job_id (str_exn e)) (\<lambda>_. return_io False) p
       else return_io False p)"

text \<open>
  A job specification of \<open>batch_process\<close> is a dictionary with the key \<open>video_id\<close> and the
  optional keys \<open>emotion\<close> and \<open>intensity\<close>, which default to curiosity and medium.
\<close>

record job_spec =
  spec_video_id :: string
  spec_emotion :: "string option"
  spec_intensity :: "string option"

record results =
  total :: nat
  successful :: nat
  failed :: nat
  job_ids :: "string list"

fun batch_loop ::
  "job_spec list \<Rightarrow> results \<Rightarrow> 'a pipeline_scheme \<Rightarrow> (exn + results) \<times> 'a pipeline_scheme" where
  "batch_loop [] res p = (Inr res, p)"
| "batch_loop (spec # rest) res p =
     (let video_id = spec_video_id spec;
          emotion = (case spec_emotion spec of None \<Rightarrow> ''curiosity'' | Some e \<Rightarrow> e);
          intensity = (case spec_intensity spec of None \<Rightarrow> ''medium'' | Some i \<Rightarrow> i)
      in case submit_video_job video_id emotion intensity None p of
           (job_id, p1) \<Rightarrow>
             if truthy job_id then
               let res = res\<lparr>job_ids := job_ids res @ [str_of job_id]\<rparr> in
               (case process_job (str_of job_id) p1 of
                  (Inl e, p2) \<Rightarrow> (Inl e, p2)
                | (Inr ok, p2) \<Rightarrow>
                    if ok then batch_loop rest (res\<lparr>successful := successful res + 1\<rparr>) p2
                    else batch_loop rest (res\<lparr>failed := failed res + 1\<rparr>) p2)
             else batch_loop rest (res\<lparr>failed := failed res + 1\<rparr>) p1)"

definition batch_process ::
  "job_spec list \<Rightarrow> 'a pipeline_scheme \<Rightarrow> (exn + results) \<times> 'a pipeline_scheme" where
  "batch_process jobs =
     batch_loop jobs \<lparr>total = length jobs, successful = 0, failed = 0, job_ids = []\<rparr>"

section \<open>Reference states and auxiliary predicates\<close>

text \<open>
  A driver on an empty, fault-free store whose clock reads 1, 2, 3, ... seconds.  Its float
  arithmetic rounds nothing; the reference states only compute with small whole numbers,
  which binary floats represent exactly.
\<close>

definition fresh_pipeline :: pipeline where
  "fresh_pipeline =
     \<lparr>hashes = [], lists = (\<lambda>key. []), calls = 0, fault = (\<lambda>n. None),
      tick = 0, clock = (\<lambda>n. 1 + real n), fround = (\<lambda>x. x),
      redis_available = True, jobs_submitted = 0, jobs_completed = 0, jobs_failed = 0,
      total_processing_time = 0\<rparr>"

text \<open>
  A retrieval result is a profile whose camera, colour and effects components are present
  and non-empty.
\<close>

definition nonempty_components :: "exn + pyval \<Rightarrow> bool" where
  "nonempty_components r =
     (case r of
        Inr (PDict p) \<Rightarrow>
          (case (map_of p ''camera'', map_of p ''color'', map_of p ''vfx'') of
             (Some (PDict camera), Some (PDict color), Some (PList vfx)) \<Rightarrow>
               camera \<noteq> [] \<and> color \<noteq> [] \<and> vfx \<noteq> []
           | _ \<Rightarrow> False)
      | _ \<Rightarrow> False)"

text \<open>
  The reference states with a job are built with the two store-level operations whose
  writes the client accepts: \<open>update_job_status\<close>, which creates the record of a job
  that has none (strings and floats only), and \<open>enqueue\<close>.  \<open>register_job\<close> is the
  status update that creates the record of the job \<open>video_001_1000\<close> with status idle.
\<close>

definition register_job :: "pipeline \<Rightarrow> pipeline" where
  "register_job p = snd (update_job_status ''video_001_1000'' IDLE None None p)"

text \<open>
  The job registered on the fresh driver with its snapshot on the oracle queue, and the
  state after that job has then been processed.
\<close>

definition queued_pipeline :: pipeline where
  "queued_pipeline =
     snd (enqueue ''oracle''
            [(''job_id'', PStr ''video_001_1000''), (''video_id'', PStr ''video_001''),
             (''emotion'', PStr ''curiosity''), (''intensity'', PStr ''medium'')]
            (register_job fresh_pipeline))"

definition completed_pipeline :: pipeline where
  "completed_pipeline = snd (process_job ''video_001_1000'' queued_pipeline)"

text \<open>A fault plan: a store that fails exactly its \<open>k\<close>-th call (counting from 0).\<close>

definition blip_pipeline :: "nat \<Rightarrow> pipeline" where
  "blip_pipeline k =
     fresh_pipeline\<lparr>fault := (\<lambda>n. if n = k then Some ''Timeout reading from socket'' else None)\<rparr>"

text \<open>
  The job registered on a store whose call number 3 fails.  Call 0 is the registration;
  \<open>process_job\<close> then reads the record (call 1), writes the status update of the first
  stage (call 2) and fails in the status update of the second stage (call 3).
\<close>

definition stage_failure_pipeline :: pipeline where
  "stage_failure_pipeline = register_job (blip_pipeline 3)"

text \<open>
  The job registered on a driver whose wall clock is set back by six seconds between its
  13th and its 14th reading.
\<close>

definition stepback_pipeline :: pipeline where
  "stepback_pipeline =
     register_job (fresh_pipeline\<lparr>clock := (\<lambda>n. if n < 13 then 1 + real n else real n - 5)\<rparr>)"

text \<open>
  A store that holds 36 keys \<open>emotional_vertices:<emotion>:<intensity>\<close>, named as the
  seeding of the index names them, and fails its call number 3, the third queue-length
  reading of a health check.
\<close>

definition seeded_pipeline :: pipeline where
  "seeded_pipeline = fresh_pipeline
     \<lparr>hashes :=
        map (\<lambda>key. (key, \<lparr>hfields = [(''ffmpeg'', PStr [])], httl = None\<rparr>))
          (concat (map (\<lambda>e. map (\<lambda>i. ''emotional_vertices:'' @ e @ '':'' @ i)
                                  [''light'', ''medium'', ''heavy''])
                       get_all_emotions)),
      fault := (\<lambda>n. if n = 3 then Some ''Timeout reading from socket'' else None)\<rparr>"

text \<open>
  The state machine as the specification words it: Idle to Processing, Processing to
  Completed or Failed, and Processing to and from Paused.  The source has no counterpart of
  this relation; it serves to state what \<open>update_job_status\<close> does with a transition
  outside it.
\<close>

definition spec_transition_allowed :: "ServiceStatus \<Rightarrow> ServiceStatus \<Rightarrow> bool" where
  "spec_transition_allowed old new =
     ((old = IDLE \<and> new = PROCESSING)
      \<or> (old = PROCESSING \<and> (new = COMPLETED \<or> new = FAILED \<or> new = PAUSED))
      \<or> (old = PAUSED \<and> new = PROCESSING))"

section \<open>Properties of the emotional index\<close>

lemma get_all_emotions_eq:
  "get_all_emotions =
     [''curiosity'', ''fear'', ''triumph'', ''tension'', ''wonder'', ''urgency'',
      ''melancholy'', ''romance'', ''joy'', ''nostalgia'', ''rage'', ''serenity'']"
  by (simp add: get_all_emotions_def EMOTIONAL_INDEX_def)

lemma twelve_archetypes: "length get_all_emotions = 12 \<and> distinct get_all_emotions"
  by (simp add: get_all_emotions_eq)

lemmas profile_simps =
  nonempty_components_def get_emotion_profile_def EMOTIONAL_INDEX_def bind_exn_def dict_get_def

lemma nonempty_curiosity:
  "i \<in> {''light'', ''medium'', ''heavy''} \<Longrightarrow> nonempty_components (get_emotion_profile ''curiosity'' i)"
  by (auto simp add: profile_simps curiosity_entry_def)

lemma nonempty_fear:
  "i \<in> {''light'', ''medium'', ''heavy''} \<Longrightarrow> nonempty_components (get_emotion_profile ''fear'' i)"
  by (auto simp add: profile_simps fear_entry_def)

lemma nonempty_triumph:
  "i \<in> {''light'', ''medium'', ''heavy''} \<Longrightarrow> nonempty_components (get_emotion_profile ''triumph'' i)"
  by (auto simp add: profile_simps triumph_entry_def)

lemma nonempty_tension:
  "i \<in> {''light'', ''medium'', ''heavy''} \<Longrightarrow> nonempty_components (get_emotion_profile ''tension'' i)"
  by (auto simp add: profile_simps tension_entry_def)

lemma nonempty_wonder:
  "i \<in> {''light'', ''medium'', ''heavy''} \<Longrightarrow> nonempty_components (get_emotion_profile ''wonder'' i)"
  by (auto simp add: profile_simps wonder_entry_def)

lemma nonempty_urgency:
  "i \<in> {''light'', ''medium'', ''heavy''} \<Longrightarrow> nonempty_components (get_emotion_profile ''urgency'' i)"
  by (auto simp add: profile_simps urgency_entry_def)

lemma nonempty_melancholy:
  "i \<in> {''light'', ''medium'', ''heavy''} \<Longrightarrow> nonempty_components (get_emotion_profile ''melancholy'' i)"
  by (auto simp add: profile_simps melancholy_entry_def)

lemma nonempty_romance:
  "i \<in> {''light'', ''medium'', ''heavy''} \<Longrightarrow> nonempty_components (get_emotion_profile ''romance'' i)"
  by (auto simp add: profile_simps romance_entry_def)

lemma nonempty_joy:
  "i \<in> {''light'', ''medium'', ''heavy''} \<Longrightarrow> nonempty_components (get_emotion_profile ''joy'' i)"
  by (auto simp add: profile_simps joy_entry_def)

lemma nonempty_nostalgia:
  "i \<in> {''light'', ''medium'', ''heavy''} \<Longrightarrow> nonempty_components (get_emotion_profile ''nostalgia'' i)"
  by (auto simp add: profile_simps nostalgia_entry_def)

lemma nonempty_rage:
  "i \<in> {''light'', ''medium'', ''heavy''} \<Longrightarrow> nonempty_components (get_emotion_profile ''rage'' i)"
  by (auto simp add: profile_simps rage_entry_def)

lemma nonempty_serenity:
  "i \<in> {''light'', ''medium'', ''heavy''} \<Longrightarrow> nonempty_components (get_emotion_profile ''serenity'' i)"
  by (auto simp add: profile_simps serenity_entry_def)

lemma known_cases:
  assumes "e \<in> set get_all_emotions"
  shows "e = ''curiosity'' \<or> e = ''fear'' \<or> e = ''triumph'' \<or> e = ''tension''
    \<or> e = ''wonder'' \<or> e = ''urgency'' \<or> e = ''melancholy'' \<or> e = ''romance''
    \<or> e = ''joy'' \<or> e = ''nostalgia'' \<or> e = ''rage'' \<or> e = ''serenity''"
  using assms unfolding get_all_emotions_eq set_simps insert_iff empty_iff
  by (simp only: simp_thms)

lemma nonempty_known:
  assumes "e \<in> set get_all_emotions" and level: "i \<in> {''light'', ''medium'', ''heavy''}"
  shows "nonempty_components (get_emotion_profile e i)"
  using known_cases [OF assms(1)]
  by (elim disjE)
     (simp_all only: nonempty_curiosity [OF level] nonempty_fear [OF level]
        nonempty_triumph [OF level] nonempty_tension [OF level] nonempty_wonder [OF level]
        nonempty_urgency [OF level] nonempty_melancholy [OF level] nonempty_romance [OF level]
        nonempty_joy [OF level] nonempty_nostalgia [OF level] nonempty_rage [OF level]
        nonempty_serenity [OF level])

lemmas entry_defs = curiosity_entry_def fear_entry_def triumph_entry_def tension_entry_def
  wonder_entry_def urgency_entry_def melancholy_entry_def romance_entry_def joy_entry_def
  nostalgia_entry_def rage_entry_def serenity_entry_def

text \<open>The lookup raises for no emotion and no intensity, known or unknown.\<close>

lemma get_emotion_profile_total: "\<exists>p. get_emotion_profile e i = Inr p"
proof (cases "e \<in> set get_all_emotions")
  case False
  then have "map_of EMOTIONAL_INDEX e = None"
    by (simp add: get_all_emotions_def map_of_eq_None_iff)
  then show ?thesis by (simp add: get_emotion_profile_def)
next
  case True
  from known_cases [OF this] show ?thesis
    by (elim disjE)
       (simp_all add: get_emotion_profile_def EMOTIONAL_INDEX_def bind_exn_def dict_get_def
          entry_defs)
qed

lemma nonempty_componentsD:
  assumes "nonempty_components r"
  shows "\<exists>p camera color vfx. r = Inr (PDict p)
          \<and> map_of p ''camera'' = Some (PDict camera) \<and> camera \<noteq> []
          \<and> map_of p ''color'' = Some (PDict color) \<and> color \<noteq> []
          \<and> map_of p ''vfx'' = Some (PList vfx) \<and> vfx \<noteq> []"
  using assms unfolding nonempty_components_def
  by (auto split: sum.splits pyval.splits option.splits)

text \<open>
  Claim C8.  For each of the twelve archetypes of the index and each of the intensities
  light, medium and heavy, \<open>get_emotion_profile\<close> returns a dictionary whose \<open>camera\<close>,
  \<open>color\<close> and \<open>vfx\<close> entries are present and non-empty.
\<close>

theorem get_emotion_profile_known_nonempty:
  assumes "e \<in> set get_all_emotions" and "i \<in> {''light'', ''medium'', ''heavy''}"
  shows "\<exists>p camera color vfx. get_emotion_profile e i = Inr (PDict p)
          \<and> map_of p ''camera'' = Some (PDict camera) \<and> camera \<noteq> []
          \<and> map_of p ''color'' = Some (PDict color) \<and> color \<noteq> []
          \<and> map_of p ''vfx'' = Some (PList vfx) \<and> vfx \<noteq> []"
  using assms by (intro nonempty_componentsD nonempty_known)

theorem get_emotion_profile_known_nonempty_witness:
  "''rage'' \<in> set get_all_emotions \<and> ''heavy'' \<in> {''light'', ''medium'', ''heavy''}
   \<and> (\<exists>p camera color vfx. get_emotion_profile ''rage'' ''heavy'' = Inr (PDict p)
          \<and> map_of p ''camera'' = Some (PDict camera) \<and> camera \<noteq> []
          \<and> map_of p ''color'' = Some (PDict color) \<and> color \<noteq> []
          \<and> map_of p ''vfx'' = Some (PList vfx) \<and> vfx \<noteq> [])"
proof -
  have known: "''rage'' \<in> set get_all_emotions"
    by (simp add: get_all_emotions_eq)
  have level: "''heavy'' \<in> {''light'', ''medium'', ''heavy''}"
    by simp
  from get_emotion_profile_known_nonempty [OF known level] known level
  show ?thesis by blast
qed

text \<open>
  Claim C9.  For an emotion name that is not a key of the index, \<open>get_emotion_profile\<close>
  does not fail: it returns the curiosity entry of the catalogue as it stands, which holds
  all three intensity variants of camera, colour and effects and has no \<open>emotion\<close> or
  \<open>intensity\<close> field.
\<close>

theorem get_emotion_profile_unknown_fallback:
  assumes "e \<notin> set get_all_emotions"
  shows "get_emotion_profile e i = Inr curiosity_entry
     \<and> (\<exists>d camera color vfx. curiosity_entry = PDict d
          \<and> map fst d = [''description'', ''camera'', ''color'', ''vfx'', ''ffmpeg'']
          \<and> map_of d ''camera'' = Some (PDict camera)
          \<and> map fst camera = [''light'', ''medium'', ''heavy'']
          \<and> map_of d ''color'' = Some (PDict color)
          \<and> map fst color = [''light'', ''medium'', ''heavy'']
          \<and> map_of d ''vfx'' = Some (PDict vfx)
          \<and> map fst vfx = [''light'', ''medium'', ''heavy''])"
proof
  from assms have "map_of EMOTIONAL_INDEX e = None"
    by (simp add: get_all_emotions_def map_of_eq_None_iff)
  moreover have "dict_get EMOTIONAL_INDEX ''curiosity'' (PDict []) = curiosity_entry"
    by (simp add: dict_get_def EMOTIONAL_INDEX_def)
  ultimately show "get_emotion_profile e i = Inr curiosity_entry"
    by (simp add: get_emotion_profile_def)
next
  show "\<exists>d camera color vfx. curiosity_entry = PDict d
          \<and> map fst d = [''description'', ''camera'', ''color'', ''vfx'', ''ffmpeg'']
          \<and> map_of d ''camera'' = Some (PDict camera)
          \<and> map fst camera = [''light'', ''medium'', ''heavy'']
          \<and> map_of d ''color'' = Some (PDict color)
          \<and> map fst color = [''light'', ''medium'', ''heavy'']
          \<and> map_of d ''vfx'' = Some (PDict vfx)
          \<and> map fst vfx = [''light'', ''medium'', ''heavy'']"
    by (simp add: curiosity_entry_def)
qed

theorem get_emotion_profile_unknown_fallback_witness:
  "''not_an_emotion'' \<notin> set get_all_emotions
   \<and> get_emotion_profile ''not_an_emotion'' ''medium'' = Inr curiosity_entry"
proof -
  have unknown: "''not_an_emotion'' \<notin> set get_all_emotions"
    by (simp add: get_all_emotions_eq)
  from get_emotion_profile_unknown_fallback [OF unknown, of "''medium''"] unknown
  show ?thesis by blast
qed

section \<open>Properties of the store calls\<close>

lemma redis_call_served:
  "fault w (calls w) = None \<Longrightarrow>
   redis_call serve w = (case serve (w\<lparr>calls := Suc (calls w)\<rparr>) of (r, w') \<Rightarrow> (Inr r, w'))"
  by (simp add: redis_call_def)

lemma redis_call_raises:
  "fault w (calls w) = Some msg \<Longrightarrow>
   redis_call serve w = (Inl (RedisError msg), w\<lparr>calls := Suc (calls w)\<rparr>)"
  by (simp add: redis_call_def)

lemmas io_defs = bind_io_def return_io_def lift_exn_def try_io_def time_time_def
  fmul_def fsub_def fadd_def

lemma map_of_dict_update:
  "map_of (dict_update d mapping) = map_of d ++ map_of (rev mapping)"
  unfolding dict_update_def
proof (induction mapping arbitrary: d)
  case Nil
  show ?case by simp
next
  case (Cons kv mapping)
  obtain k v where kv: "kv = (k, v)" by (cases kv)
  show ?case
    by (simp add: kv Cons.IH update_conv' fun_eq_iff map_add_def split: option.splits)
qed

lemma hfields_of_update [simp]:
  "hfields_of (AList.update key h hs) key' = (if key' = key then hfields h else hfields_of hs key')"
  by (simp add: hfields_of_def update_conv')

lemma httl_of_update [simp]:
  "httl_of (AList.update key h hs) key' = (if key' = key then httl h else httl_of hs key')"
  by (simp add: httl_of_def update_conv')

text \<open>
  \<open>hset\<close>: served when every value of the mapping can be encoded, refused with a
  \<open>DataError\<close> for the first value that cannot, and raising with the connection whatever
  the mapping is.
\<close>

lemma hset_served:
  "fault w (calls w) = None \<Longrightarrow> filter (\<lambda>(k, v). \<not> encodable v) mapping = [] \<Longrightarrow>
   hset key mapping w = (Inr (),
     w\<lparr>calls := Suc (calls w),
       hashes := AList.update key
          \<lparr>hfields = dict_update (hfields_of (hashes w) key) mapping,
           httl = httl_of (hashes w) key\<rparr> (hashes w)\<rparr>)"
  by (simp add: hset_def redis_call_served)

lemma hset_refused:
  "fault w (calls w) = None \<Longrightarrow> filter (\<lambda>(k, v). \<not> encodable v) mapping = (k, v) # rest \<Longrightarrow>
   hset key mapping w = (Inl (DataError (type_name v)), w\<lparr>calls := Suc (calls w)\<rparr>)"
  by (simp add: hset_def redis_refuse_def)

lemma hset_raises:
  "fault w (calls w) = Some msg \<Longrightarrow>
   hset key mapping w = (Inl (RedisError msg), w\<lparr>calls := Suc (calls w)\<rparr>)"
  by (simp add: hset_def redis_call_raises redis_refuse_def split: list.splits prod.splits)

lemma expire_served:
  "fault w (calls w) = None \<Longrightarrow> map_of (hashes w) key = Some h \<Longrightarrow>
   expire key seconds w = (Inr True,
     w\<lparr>calls := Suc (calls w),
       hashes := AList.update key (h\<lparr>httl := Some seconds\<rparr>) (hashes w)\<rparr>)"
  by (simp add: expire_def redis_call_served)

lemma rpush_served:
  "fault w (calls w) = None \<Longrightarrow>
   rpush key payload w = (Inr (Suc (length (lists w key))),
     w\<lparr>calls := Suc (calls w), lists := (lists w)(key := lists w key @ [payload])\<rparr>)"
  by (simp add: rpush_def redis_call_served)

lemma rpush_raises:
  "fault w (calls w) = Some msg \<Longrightarrow>
   rpush key payload w = (Inl (RedisError msg), w\<lparr>calls := Suc (calls w)\<rparr>)"
  by (simp add: rpush_def redis_call_raises)

lemma hgetall_served:
  "fault w (calls w) = None \<Longrightarrow>
   hgetall key w = (Inr (hfields_of (hashes w) key), w\<lparr>calls := Suc (calls w)\<rparr>)"
  by (simp add: hgetall_def redis_call_served)

lemma hgetall_raises:
  "fault w (calls w) = Some msg \<Longrightarrow>
   hgetall key w = (Inl (RedisError msg), w\<lparr>calls := Suc (calls w)\<rparr>)"
  by (simp add: hgetall_def redis_call_raises)

lemma llen_served:
  "fault w (calls w) = None \<Longrightarrow>
   llen key w = (Inr (length (lists w key)), w\<lparr>calls := Suc (calls w)\<rparr>)"
  by (simp add: llen_def redis_call_served)

lemma llen_raises:
  "fault w (calls w) = Some msg \<Longrightarrow>
   llen key w = (Inl (RedisError msg), w\<lparr>calls := Suc (calls w)\<rparr>)"
  by (simp add: llen_def redis_call_raises)

text \<open>
  The shapes of status update that the reference states and \<open>process_job\<close> issue, served
  and raising.  Every value they write is a string or a float.
\<close>

lemma update_idle_served:
  "fault w (calls w) = None \<Longrightarrow>
   update_job_status job_id IDLE None None w = (Inr (),
     w\<lparr>tick := Suc (tick w), calls := Suc (calls w),
       hashes := AList.update (job_key_of job_id)
         \<lparr>hfields = dict_update (hfields_of (hashes w) (job_key_of job_id))
            [(''status'', PStr ''idle''), (''updated_at'', PFloat (clock w (tick w)))],
          httl = httl_of (hashes w) (job_key_of job_id)\<rparr> (hashes w)\<rparr>)"
  by (simp add: update_job_status_def io_defs Let_def hset_served truthy_def str_of_def)

lemma update_processing_served:
  "fault w (calls w) = None \<Longrightarrow> s \<noteq> [] \<Longrightarrow>
   update_job_status job_id PROCESSING (Some s) None w = (Inr (),
     w\<lparr>tick := Suc (Suc (tick w)), calls := Suc (calls w),
       hashes := AList.update (job_key_of job_id)
         \<lparr>hfields = dict_update (hfields_of (hashes w) (job_key_of job_id))
            [(''status'', PStr ''processing''), (''updated_at'', PFloat (clock w (tick w))),
             (''current_service'', PStr s), (''started_at'', PFloat (clock w (Suc (tick w))))],
          httl = httl_of (hashes w) (job_key_of job_id)\<rparr> (hashes w)\<rparr>)"
  by (simp add: update_job_status_def io_defs Let_def hset_served truthy_def str_of_def)

lemma update_processing_raises:
  "fault w (calls w) = Some msg \<Longrightarrow> s \<noteq> [] \<Longrightarrow>
   update_job_status job_id PROCESSING (Some s) None w = (Inl (RedisError msg),
     w\<lparr>tick := Suc (Suc (tick w)), calls := Suc (calls w)\<rparr>)"
  by (simp add: update_job_status_def io_defs Let_def hset_raises truthy_def str_of_def)

lemma update_completed_served:
  "fault w (calls w) = None \<Longrightarrow>
   update_job_status job_id COMPLETED None None w = (Inr (),
     w\<lparr>tick := Suc (Suc (tick w)), calls := Suc (calls w),
       hashes := AList.update (job_key_of job_id)
         \<lparr>hfields = dict_update (hfields_of (hashes w) (job_key_of job_id))
            [(''status'', PStr ''completed''), (''updated_at'', PFloat (clock w (tick w))),
             (''completed_at'', PFloat (clock w (Suc (tick w))))],
          httl = httl_of (hashes w) (job_key_of job_id)\<rparr> (hashes w)\<rparr>)"
  by (simp add: update_job_status_def io_defs Let_def hset_served truthy_def str_of_def)

lemma update_completed_raises:
  "fault w (calls w) = Some msg \<Longrightarrow>
   update_job_status job_id COMPLETED None None w = (Inl (RedisError msg),
     w\<lparr>tick := Suc (Suc (tick w)), calls := Suc (calls w)\<rparr>)"
  by (simp add: update_job_status_def io_defs Let_def hset_raises truthy_def str_of_def)

lemmas served_simps = hgetall_served rpush_served update_idle_served
  update_processing_served update_completed_served

lemmas raises_simps = hgetall_raises rpush_raises update_processing_raises
  update_completed_raises

lemmas eval_simps = fresh_pipeline_def register_job_def io_defs Let_def served_simps
  raises_simps subscript_def queues_def job_key_of_def state_prefix_def hfields_of_def
  httl_of_def dict_update_def get_job_status_def

subsection \<open>The reference states, evaluated\<close>

lemma queued_eval:
  "queued_pipeline = fresh_pipeline
     \<lparr>hashes := [(''pipeline:state:video_001_1000'',
         \<lparr>hfields = [(''status'', PStr ''idle''), (''updated_at'', PFloat 1)],
           httl = None\<rparr>)],
      lists := (\<lambda>key. [])(''pipeline:queue:oracle'' :=
         [[(''job_id'', PStr ''video_001_1000''), (''video_id'', PStr ''video_001''),
           (''emotion'', PStr ''curiosity''), (''intensity'', PStr ''medium'')]]),
      calls := 2, tick := 1\<rparr>"
  unfolding queued_pipeline_def
  by (simp add: enqueue_def eval_simps)

lemma completed_eval:
  "completed_pipeline = fresh_pipeline
     \<lparr>hashes := [(''pipeline:state:video_001_1000'',
         \<lparr>hfields = [(''status'', PStr ''completed''), (''updated_at'', PFloat 14),
             (''current_service'', PStr ''ironist''), (''started_at'', PFloat 12),
             (''completed_at'', PFloat 15)],
           httl = None\<rparr>)],
      lists := (\<lambda>key. [])(''pipeline:queue:oracle'' :=
         [[(''job_id'', PStr ''video_001_1000''), (''video_id'', PStr ''video_001''),
           (''emotion'', PStr ''curiosity''), (''intensity'', PStr ''medium'')]]),
      calls := 9, tick := 15, jobs_completed := 1, total_processing_time := 11\<rparr>"
  unfolding completed_pipeline_def queued_eval
  by (simp add: process_job_def process_job_body_def eval_simps)

lemma process_queued:
  "process_job ''video_001_1000'' queued_pipeline = (Inr True, completed_pipeline)"
  unfolding completed_eval unfolding queued_eval
  by (simp add: process_job_def process_job_body_def eval_simps)

lemma completed_served: "fault completed_pipeline n = None"
  by (simp add: completed_eval fresh_pipeline_def)

lemma completed_status:
  "map_of (hfields_of (hashes completed_pipeline) (job_key_of ''video_001_1000'')) ''status''
     = Some (PStr ''completed'')"
  by (simp add: completed_eval fresh_pipeline_def job_key_of_def state_prefix_def hfields_of_def)

lemma stage_failure_eval:
  "stage_failure_pipeline = blip_pipeline 3
     \<lparr>hashes := [(''pipeline:state:video_001_1000'',
         \<lparr>hfields = [(''status'', PStr ''idle''), (''updated_at'', PFloat 1)],
           httl = None\<rparr>)],
      calls := 1, tick := 1\<rparr>"
  unfolding stage_failure_pipeline_def
  by (simp add: blip_pipeline_def eval_simps)

lemma stepback_eval:
  "stepback_pipeline = fresh_pipeline
     \<lparr>hashes := [(''pipeline:state:video_001_1000'',
         \<lparr>hfields = [(''status'', PStr ''idle''), (''updated_at'', PFloat 1)],
           httl = None\<rparr>)],
      calls := 1, tick := 1,
      clock := (\<lambda>n. if n < 13 then 1 + real n else real n - 5)\<rparr>"
  unfolding stepback_pipeline_def
  by (simp add: eval_simps)

lemma seeded_count:
  "length (filter (\<lambda>k. startswith k ''emotional_vertices:'') (map fst (hashes seeded_pipeline)))
     = 36"
  by (simp add: seeded_pipeline_def fresh_pipeline_def get_all_emotions_eq startswith_def)

section \<open>Properties of the store-level orchestrator\<close>

subsection \<open>Submission\<close>

lemma submit_job_raises:
  "submit_job video_id emotion intensity metadata w =
     (Inl (case fault w (calls w) of
             Some msg \<Rightarrow> RedisError msg
           | None \<Rightarrow> DataError ''NoneType''),
      w\<lparr>tick := Suc (Suc (tick w)), calls := Suc (calls w)\<rparr>)"
  by (simp add: submit_job_def new_PipelineJob_def asdict_def py_optional_def io_defs Let_def
       hset_def redis_refuse_def split: option.splits)

text \<open>
  Claim C10, on the code.  \<open>submit_job\<close> checks neither the emotion nor the intensity, but
  it creates no record either: for every video id, emotion, intensity and metadata, and
  every state of the store, its first store call, the \<open>hset\<close> of the job's attributes,
  raises.  The attributes hold \<open>started_at = None\<close>, which the client cannot encode, so
  on a reachable store the exception is a \<open>DataError\<close> for the type \<open>NoneType\<close>.  The
  clock has been read twice and one client call has been made; the records and the queues
  are as they were, and no job id is returned.
\<close>

theorem submit_job_always_raises:
  "submit_job video_id emotion intensity metadata w =
     (Inl (case fault w (calls w) of
             Some msg \<Rightarrow> RedisError msg
           | None \<Rightarrow> DataError ''NoneType''),
      w\<lparr>tick := Suc (Suc (tick w)), calls := Suc (calls w)\<rparr>)"
  by (rule submit_job_raises)

subsection \<open>Status updates\<close>

lemma update_job_status_served_status:
  assumes "fault w (calls w) = None"
  shows "fst (update_job_status job_id status service error w) = Inr ()
     \<and> map_of (hfields_of (hashes (snd (update_job_status job_id status service error w)))
          (job_key_of job_id)) ''status'' = Some (PStr (status_value status))"
  using assms
  by (simp add: update_job_status_def io_defs Let_def hset_served map_of_dict_update)

text \<open>
  Claim C1, as stated, fails.  The job \<open>video_001_1000\<close> of \<open>completed_pipeline\<close> has the
  status completed; the transition from Completed to Idle is outside the state machine of
  the specification; \<open>update_job_status\<close> returns normally all the same, and the stored
  status is idle afterwards.
\<close>

theorem update_job_status_completed_to_idle:
  "\<not> spec_transition_allowed COMPLETED IDLE
   \<and> map_of (hfields_of (hashes completed_pipeline) (job_key_of ''video_001_1000'')) ''status''
        = Some (PStr (status_value COMPLETED))
   \<and> fst (update_job_status ''video_001_1000'' IDLE None None completed_pipeline) = Inr ()
   \<and> map_of (hfields_of (hashes (snd (update_job_status ''video_001_1000'' IDLE None None
          completed_pipeline))) (job_key_of ''video_001_1000'')) ''status''
        = Some (PStr (status_value IDLE))"
  using update_job_status_served_status
      [OF completed_served, of "''video_001_1000''" IDLE None None]
    completed_status
  by (simp add: spec_transition_allowed_def)

text \<open>
  Claim C1, amended.  \<open>update_job_status\<close> checks no transition: for every job id, every
  requested status and every state of the store, when the store serves the call the update
  returns normally and the stored status of the job is the requested one.
\<close>

theorem update_job_status_unchecked:
  assumes "fault w (calls w) = None"
  shows "fst (update_job_status job_id status service error w) = Inr ()
     \<and> map_of (hfields_of (hashes (snd (update_job_status job_id status service error w)))
          (job_key_of job_id)) ''status'' = Some (PStr (status_value status))"
  using assms by (rule update_job_status_served_status)

theorem update_job_status_unchecked_witness:
  "fault completed_pipeline (calls completed_pipeline) = None
   \<and> \<not> spec_transition_allowed COMPLETED PAUSED
   \<and> fst (update_job_status ''video_001_1000'' PAUSED None None completed_pipeline) = Inr ()
   \<and> map_of (hfields_of (hashes (snd (update_job_status ''video_001_1000'' PAUSED None None
          completed_pipeline))) (job_key_of ''video_001_1000'')) ''status''
        = Some (PStr ''paused'')"
proof -
  have served: "fault completed_pipeline (calls completed_pipeline) = None"
    by (rule completed_served)
  from update_job_status_unchecked [OF served, of "''video_001_1000''" PAUSED None None] served
  show ?thesis by (simp add: spec_transition_allowed_def)
qed

subsection \<open>Health check\<close>

text \<open>
  The loop over the queue lengths: it makes one call per queue while the calls are served
  and stops with the first call that raises.
\<close>

lemma llen_loop_served:
  assumes "\<forall>i<length ks. fault w (calls w + i) = None"
  shows "for_io ks (\<lambda>queue_key. bind_io (llen queue_key) (\<lambda>_. return_io ())) w
           = (Inr (), w\<lparr>calls := calls w + length ks\<rparr>)"
  using assms
proof (induction ks arbitrary: w)
  case Nil
  show ?case by simp
next
  case (Cons k ks)
  let ?w1 = "w\<lparr>calls := Suc (calls w)\<rparr>"
  from Cons.prems have served: "fault w (calls w) = None"
    and rest: "\<forall>i<length ks. fault ?w1 (calls ?w1 + i) = None"
    by (auto simp add: All_less_Suc2)
  from Cons.IH [OF rest] served show ?case
    by (simp add: llen_served io_defs)
qed

lemma llen_loop_raises:
  assumes "j < length ks"
    and "\<forall>i<j. fault w (calls w + i) = None"
    and "fault w (calls w + j) = Some msg"
  shows "for_io ks (\<lambda>queue_key. bind_io (llen queue_key) (\<lambda>_. return_io ())) w
           = (Inl (RedisError msg), w\<lparr>calls := calls w + j + 1\<rparr>)"
  using assms
proof (induction ks arbitrary: w j)
  case Nil
  then show ?case by simp
next
  case (Cons k ks)
  let ?w1 = "w\<lparr>calls := Suc (calls w)\<rparr>"
  show ?case
  proof (cases j)
    case 0
    with Cons.prems show ?thesis by (simp add: llen_raises io_defs)
  next
    case (Suc j')
    with Cons.prems have served: "fault w (calls w) = None"
      and len: "j' < length ks"
      and rest: "\<forall>i<j'. fault ?w1 (calls ?w1 + i) = None"
      and fails: "fault ?w1 (calls ?w1 + j') = Some msg"
      by (auto simp add: All_less_Suc2)
    from Cons.IH [OF len rest fails] served Suc show ?thesis
      by (simp add: llen_served io_defs)
  qed
qed

text \<open>
  Claim C4, as stated, fails in its second half.  On a store whose first call (the ping)
  fails and whose later calls would be served, \<open>health_check\<close> makes that one call and no
  other, and reports the queues as not accessible without having read any queue length.
\<close>

theorem health_check_ping_failure_skips_checks:
  "fault (blip_pipeline 0) (calls (blip_pipeline 0)) = Some ''Timeout reading from socket''
   \<and> fault (blip_pipeline 0) (Suc (calls (blip_pipeline 0))) = None
   \<and> calls (snd (health_check (blip_pipeline 0))) = Suc (calls (blip_pipeline 0))
   \<and> \<not> queues_accessible (fst (health_check (blip_pipeline 0)))"
  by (simp add: health_check_def ping_def redis_call_def blip_pipeline_def fresh_pipeline_def)

text \<open>
  Claim C4, amended.  When the ping fails, \<open>health_check\<close> reports \<open>redis_connected\<close>
  false, returns at once with the other two flags false, and has made no call but the
  ping.  When the ping is served, \<open>redis_connected\<close> is true and the two remaining checks
  are independent of each other.  If the queue-length call number \<open>j\<close> (of six, counted
  from 0) is the first that fails, \<open>queues_accessible\<close> is false, and the key scan is
  attempted all the same as the very next call: it alone decides
  \<open>emotional_index_loaded\<close> (served, and at least 24 keys), and the check has made
  \<open>j + 3\<close> calls.  If all six queue-length calls are served, \<open>queues_accessible\<close> is true,
  the key scan is the eighth call and decides \<open>emotional_index_loaded\<close> in the same way.
\<close>

theorem health_check_ping_gate:
  "(fault w (calls w) \<noteq> None \<longrightarrow>
      health_check w =
        (\<lparr>redis_connected = False, queues_accessible = False, emotional_index_loaded = False\<rparr>,
         w\<lparr>calls := Suc (calls w)\<rparr>))
   \<and> (fault w (calls w) = None \<longrightarrow>
        (\<forall>j<6. (\<forall>i<j. fault w (calls w + 1 + i) = None) \<and> fault w (calls w + 1 + j) \<noteq> None
           \<longrightarrow> health_check w =
                 (\<lparr>redis_connected = True, queues_accessible = False,
                   emotional_index_loaded =
                     (fault w (calls w + 2 + j) = None
                      \<and> 24 \<le> length (filter (\<lambda>k. startswith k ''emotional_vertices:'')
                                         (map fst (hashes w))))\<rparr>,
                  w\<lparr>calls := calls w + 3 + j\<rparr>))
      \<and> ((\<forall>i<6. fault w (calls w + 1 + i) = None)
           \<longrightarrow> health_check w =
                 (\<lparr>redis_connected = True, queues_accessible = True,
                   emotional_index_loaded =
                     (fault w (calls w + 7) = None
                      \<and> 24 \<le> length (filter (\<lambda>k. startswith k ''emotional_vertices:'')
                                         (map fst (hashes w))))\<rparr>,
                  w\<lparr>calls := calls w + 8\<rparr>)))"
proof (intro conjI impI allI)
  assume "fault w (calls w) \<noteq> None"
  then show "health_check w =
        (\<lparr>redis_connected = False, queues_accessible = False, emotional_index_loaded = False\<rparr>,
         w\<lparr>calls := Suc (calls w)\<rparr>)"
    by (auto simp add: health_check_def ping_def redis_call_raises)
next
  fix j
  assume served: "fault w (calls w) = None" and j: "j < 6"
    and first: "(\<forall>i<j. fault w (calls w + 1 + i) = None) \<and> fault w (calls w + 1 + j) \<noteq> None"
  let ?w1 = "w\<lparr>calls := Suc (calls w)\<rparr>"
  let ?qs = "map snd queues"
  have len: "length ?qs = 6" by (simp add: queues_def)
  from first obtain msg where msg: "fault w (calls w + 1 + j) = Some msg" by auto
  have ping: "ping w = (Inr (), ?w1)"
    using served by (simp add: ping_def redis_call_served)
  have "for_io ?qs (\<lambda>queue_key. bind_io (llen queue_key) (\<lambda>_. return_io ())) ?w1
          = (Inl (RedisError msg), ?w1\<lparr>calls := calls ?w1 + j + 1\<rparr>)"
    using j first msg by (intro llen_loop_raises) (simp_all add: queues_def)
  then have loop: "for_io ?qs (\<lambda>queue_key. bind_io (llen queue_key) (\<lambda>_. return_io ())) ?w1
          = (Inl (RedisError msg), w\<lparr>calls := calls w + 2 + j\<rparr>)"
    by simp
  have scan: "\<And>c. scan_iter ''emotional_vertices:'' (w\<lparr>calls := c\<rparr>) =
     (case fault w c of
        Some msg' \<Rightarrow> (Inl (RedisError msg'), w\<lparr>calls := Suc c\<rparr>)
      | None \<Rightarrow> (Inr (filter (\<lambda>k. startswith k ''emotional_vertices:'') (map fst (hashes w))),
                  w\<lparr>calls := Suc c\<rparr>))"
    by (simp add: scan_iter_def redis_call_def split: option.splits)
  show "health_check w =
      (\<lparr>redis_connected = True, queues_accessible = False,
        emotional_index_loaded =
          (fault w (calls w + 2 + j) = None
           \<and> 24 \<le> length (filter (\<lambda>k. startswith k ''emotional_vertices:'')
                              (map fst (hashes w))))\<rparr>,
       w\<lparr>calls := calls w + 3 + j\<rparr>)"
    by (simp add: health_check_def Let_def ping loop scan split: option.splits)
next
  assume served: "fault w (calls w) = None"
    and all: "\<forall>i<6. fault w (calls w + 1 + i) = None"
  let ?w1 = "w\<lparr>calls := Suc (calls w)\<rparr>"
  let ?qs = "map snd queues"
  have len: "length ?qs = 6" by (simp add: queues_def)
  have ping: "ping w = (Inr (), ?w1)"
    using served by (simp add: ping_def redis_call_served)
  have "for_io ?qs (\<lambda>queue_key. bind_io (llen queue_key) (\<lambda>_. return_io ())) ?w1
          = (Inr (), ?w1\<lparr>calls := calls ?w1 + length ?qs\<rparr>)"
    using all by (intro llen_loop_served) (simp add: queues_def)
  then have loop: "for_io ?qs (\<lambda>queue_key. bind_io (llen queue_key) (\<lambda>_. return_io ())) ?w1
          = (Inr (), w\<lparr>calls := calls w + 7\<rparr>)"
    by (simp add: queues_def)
  have scan: "\<And>c. scan_iter ''emotional_vertices:'' (w\<lparr>calls := c\<rparr>) =
     (case fault w c of
        Some msg' \<Rightarrow> (Inl (RedisError msg'), w\<lparr>calls := Suc c\<rparr>)
      | None \<Rightarrow> (Inr (filter (\<lambda>k. startswith k ''emotional_vertices:'') (map fst (hashes w))),
                  w\<lparr>calls := Suc c\<rparr>))"
    by (simp add: scan_iter_def redis_call_def split: option.splits)
  show "health_check w =
      (\<lparr>redis_connected = True, queues_accessible = True,
        emotional_index_loaded =
          (fault w (calls w + 7) = None
           \<and> 24 \<le> length (filter (\<lambda>k. startswith k ''emotional_vertices:'')
                              (map fst (hashes w))))\<rparr>,
       w\<lparr>calls := calls w + 8\<rparr>)"
    by (simp add: health_check_def Let_def ping loop scan split: option.splits)
qed

theorem health_check_ping_gate_witness:
  "fault (blip_pipeline 0) (calls (blip_pipeline 0)) \<noteq> None
   \<and> health_check (blip_pipeline 0) =
        (\<lparr>redis_connected = False, queues_accessible = False, emotional_index_loaded = False\<rparr>,
         (blip_pipeline 0)\<lparr>calls := 1\<rparr>)
   \<and> fault seeded_pipeline (calls seeded_pipeline) = None
   \<and> fault seeded_pipeline 1 = None \<and> fault seeded_pipeline 2 = None
   \<and> fault seeded_pipeline 3 \<noteq> None
   \<and> health_check seeded_pipeline =
        (\<lparr>redis_connected = True, queues_accessible = False, emotional_index_loaded = True\<rparr>,
         seeded_pipeline\<lparr>calls := 5\<rparr>)
   \<and> health_check fresh_pipeline =
        (\<lparr>redis_connected = True, queues_accessible = True, emotional_index_loaded = False\<rparr>,
         fresh_pipeline\<lparr>calls := 8\<rparr>)"
proof -
  have failing: "fault (blip_pipeline 0) (calls (blip_pipeline 0)) \<noteq> None"
    and c0: "calls (blip_pipeline 0) = 0"
    by (simp_all add: blip_pipeline_def fresh_pipeline_def)
  from health_check_ping_gate [of "blip_pipeline 0", THEN conjunct1, THEN mp, OF failing]
  have first: "health_check (blip_pipeline 0) =
        (\<lparr>redis_connected = False, queues_accessible = False, emotional_index_loaded = False\<rparr>,
         (blip_pipeline 0)\<lparr>calls := 1\<rparr>)"
    by (simp add: c0)
  have cs: "calls seeded_pipeline = 0"
    and fs: "fault seeded_pipeline
               = (\<lambda>n. if n = 3 then Some ''Timeout reading from socket'' else None)"
    by (simp_all add: seeded_pipeline_def fresh_pipeline_def)
  have served: "fault seeded_pipeline (calls seeded_pipeline) = None"
    "fault seeded_pipeline 1 = None" "fault seeded_pipeline 2 = None"
    "fault seeded_pipeline 3 \<noteq> None"
    by (simp_all add: cs fs)
  have two: "(2::nat) < 6" by simp
  have prefix: "(\<forall>i<2. fault seeded_pipeline (calls seeded_pipeline + 1 + i) = None)
      \<and> fault seeded_pipeline (calls seeded_pipeline + 1 + 2) \<noteq> None"
    by (simp add: cs fs)
  from health_check_ping_gate [of seeded_pipeline, THEN conjunct2, THEN mp, OF served(1),
      THEN conjunct1, THEN spec, THEN mp, OF two, THEN mp, OF prefix]
  have second: "health_check seeded_pipeline =
        (\<lparr>redis_connected = True, queues_accessible = False, emotional_index_loaded = True\<rparr>,
         seeded_pipeline\<lparr>calls := 5\<rparr>)"
    by (simp add: cs fs seeded_count [unfolded filter_map length_map])
  have cf: "calls fresh_pipeline = 0" and ff: "fault fresh_pipeline = (\<lambda>n. None)"
    and hf: "hashes fresh_pipeline = []"
    by (simp_all add: fresh_pipeline_def)
  have servedf: "fault fresh_pipeline (calls fresh_pipeline) = None"
    and allf: "\<forall>i<6. fault fresh_pipeline (calls fresh_pipeline + 1 + i) = None"
    by (simp_all add: ff)
  from health_check_ping_gate [of fresh_pipeline, THEN conjunct2, THEN mp, OF servedf,
      THEN conjunct2, THEN mp, OF allf]
  have third: "health_check fresh_pipeline =
        (\<lparr>redis_connected = True, queues_accessible = True, emotional_index_loaded = False\<rparr>,
         fresh_pipeline\<lparr>calls := 8\<rparr>)"
    by (simp add: cf ff hf)
  from failing first served second third show ?thesis by simp
qed

subsection \<open>Reset\<close>

lemma for_io_delete:
  assumes "\<forall>n\<ge>calls w. fault w n = None"
  shows "\<exists>w'. for_io ks delete w = (Inr (), w')
     \<and> calls w' = calls w + length ks \<and> fault w' = fault w
     \<and> (\<forall>k. lists w' k = (if k \<in> set ks then [] else lists w k))
     \<and> (\<forall>k. map_of (hashes w') k = (if k \<in> set ks then None else map_of (hashes w) k))"
  using assms
proof (induction ks arbitrary: w)
  case Nil
  show ?case by simp
next
  case (Cons k ks)
  let ?w1 = "w\<lparr>calls := Suc (calls w),
     hashes := AList.delete k (hashes w), lists := (lists w)(k := [])\<rparr>"
  from Cons.prems have served: "fault w (calls w) = None" by simp
  then have step: "delete k w = (Inr (), ?w1)"
    by (simp add: delete_def redis_call_served)
  from Cons.prems have "\<forall>n\<ge>calls ?w1. fault ?w1 n = None" by simp
  from Cons.IH [OF this] obtain w' where rest: "for_io ks delete ?w1 = (Inr (), w')"
    and c: "calls w' = calls ?w1 + length ks" and f: "fault w' = fault ?w1"
    and l: "\<forall>k'. lists w' k' = (if k' \<in> set ks then [] else lists ?w1 k')"
    and h: "\<forall>k'. map_of (hashes w') k'
              = (if k' \<in> set ks then None else map_of (hashes ?w1) k')"
    by blast
  have "for_io (k # ks) delete w = (Inr (), w')"
    by (simp add: step rest)
  moreover have "calls w' = calls w + length (k # ks)" using c by simp
  moreover have "fault w' = fault w" using f by simp
  moreover have "\<forall>k'. lists w' k' = (if k' \<in> set (k # ks) then [] else lists w k')"
    using l by simp
  moreover have "\<forall>k'. map_of (hashes w') k'
      = (if k' \<in> set (k # ks) then None else map_of (hashes w) k')"
    using h by (simp add: delete_conv)
  ultimately show ?case by blast
qed

lemma startswith_job_key: "startswith (job_key_of job_id) (state_prefix @ '':'')"
  by (simp add: startswith_def job_key_of_def)

text \<open>
  Claim C7.  Without the confirmation flag \<open>reset_pipeline\<close> reports refusal and returns
  the state as it was, with no store call made.  With the flag, on a store that serves
  every call from now on, it reports success, every one of the six queues is empty
  afterwards and no job id has a state record any more.
\<close>

theorem reset_pipeline_confirmation:
  "reset_pipeline False w = (False, w)
   \<and> ((\<forall>n\<ge>calls w. fault w n = None) \<longrightarrow>
        fst (reset_pipeline True w) = True
      \<and> (\<forall>q \<in> set (map snd queues). lists (snd (reset_pipeline True w)) q = [])
      \<and> (\<forall>job_id. map_of (hashes (snd (reset_pipeline True w))) (job_key_of job_id) = None))"
proof (intro conjI impI)
  show "reset_pipeline False w = (False, w)"
    by (simp add: reset_pipeline_def)
next
  assume reachable: "\<forall>n\<ge>calls w. fault w n = None"
  let ?qs = "map snd queues"
  let ?pre = "state_prefix @ '':''"
  from for_io_delete [OF reachable, of ?qs] obtain w1 where
    q: "for_io ?qs delete w = (Inr (), w1)"
    and c1: "calls w1 = calls w + length ?qs" and f1: "fault w1 = fault w"
    and l1: "\<forall>k. lists w1 k = (if k \<in> set ?qs then [] else lists w k)"
    and h1: "\<forall>k. map_of (hashes w1) k = (if k \<in> set ?qs then None else map_of (hashes w) k)"
    by blast
  let ?keys = "filter (\<lambda>k. startswith k ?pre) (map fst (hashes w1))"
  let ?w2 = "w1\<lparr>calls := Suc (calls w1)\<rparr>"
  from reachable c1 f1 have served: "fault w1 (calls w1) = None" by simp
  then have scan: "scan_iter ?pre w1 = (Inr ?keys, ?w2)"
    by (simp add: scan_iter_def redis_call_served)
  from reachable c1 f1 have "\<forall>n\<ge>calls ?w2. fault ?w2 n = None" by simp
  from for_io_delete [OF this, of ?keys] obtain w3 where
    d: "for_io ?keys delete ?w2 = (Inr (), w3)"
    and l3: "\<forall>k. lists w3 k = (if k \<in> set ?keys then [] else lists ?w2 k)"
    and h3: "\<forall>k. map_of (hashes w3) k
               = (if k \<in> set ?keys then None else map_of (hashes ?w2) k)"
    by blast
  have run: "reset_pipeline True w = (True, w3)"
    by (simp add: reset_pipeline_def bind_io_def q scan d)
  show "fst (reset_pipeline True w) = True"
    by (simp add: run)
  show "\<forall>q \<in> set (map snd queues). lists (snd (reset_pipeline True w)) q = []"
    using l3 l1 by (simp add: run)
  show "\<forall>job_id. map_of (hashes (snd (reset_pipeline True w))) (job_key_of job_id) = None"
  proof
    fix job_id
    show "map_of (hashes (snd (reset_pipeline True w))) (job_key_of job_id) = None"
    proof (cases "job_key_of job_id \<in> set (map fst (hashes w1))")
      case True
      then have "job_key_of job_id \<in> set ?keys"
        by (simp add: startswith_job_key)
      with h3 show ?thesis by (simp add: run)
    next
      case False
      then have "map_of (hashes w1) (job_key_of job_id) = None"
        by (simp add: map_of_eq_None_iff)
      with h3 show ?thesis by (simp add: run)
    qed
  qed
qed

theorem reset_pipeline_confirmation_witness:
  "lists queued_pipeline ''pipeline:queue:oracle'' \<noteq> []
   \<and> map_of (hashes queued_pipeline) (job_key_of ''video_001_1000'') \<noteq> None
   \<and> reset_pipeline False queued_pipeline = (False, queued_pipeline)
   \<and> fst (reset_pipeline True queued_pipeline) = True
   \<and> lists (snd (reset_pipeline True queued_pipeline)) ''pipeline:queue:oracle'' = []
   \<and> map_of (hashes (snd (reset_pipeline True queued_pipeline))) (job_key_of ''video_001_1000'')
        = None"
proof -
  have before: "lists queued_pipeline ''pipeline:queue:oracle'' \<noteq> []"
    "map_of (hashes queued_pipeline) (job_key_of ''video_001_1000'') \<noteq> None"
    by (simp_all add: queued_eval fresh_pipeline_def job_key_of_def state_prefix_def)
  have reachable: "\<forall>n\<ge>calls queued_pipeline. fault queued_pipeline n = None"
    by (simp add: queued_eval fresh_pipeline_def)
  have oracle_key: "''pipeline:queue:oracle'' \<in> set (map snd queues)"
    by (simp add: queues_def)
  from reset_pipeline_confirmation [of queued_pipeline] reachable oracle_key before
  show ?thesis by blast
qed

section \<open>Properties of the driver\<close>

text \<open>
  Claim C3.  When the emotion is not one of the twelve names of the index, or the intensity
  is not light, medium or heavy, \<open>submit_video_job\<close> gives the failure result \<open>None\<close>
  and leaves the whole state as it was: no store call is made, so no job record is written
  and nothing is enqueued, the clock is not read and the counters keep their values.
\<close>

theorem submit_video_job_rejects_invalid:
  assumes "e \<notin> set get_all_emotions \<or> i \<notin> {''light'', ''medium'', ''heavy''}"
  shows "submit_video_job v e i m p = (None, p)"
  using assms
  by (auto simp add: submit_video_job_def submit_video_job_body_def return_io_def)

theorem submit_video_job_rejects_invalid_witness:
  "''not_an_emotion'' \<notin> set get_all_emotions
   \<and> submit_video_job ''video_002'' ''not_an_emotion'' ''medium'' None fresh_pipeline
       = (None, fresh_pipeline)"
proof -
  have unknown: "''not_an_emotion'' \<notin> set get_all_emotions"
    by (simp add: get_all_emotions_eq)
  from submit_video_job_rejects_invalid [OF disjI1, OF unknown] unknown
  show ?thesis by blast
qed

subsection \<open>A job that runs to completion\<close>

lemma try_io_True:
  assumes "try_io m handler s = (Inr True, s')"
    and "\<And>e s1 s2. handler e s1 \<noteq> (Inr True, s2)"
  shows "m s = (Inr True, s')"
  using assms by (auto simp add: try_io_def split: prod.splits sum.splits)

lemma handler_not_True:
  "(let p = p\<lparr>jobs_failed := jobs_failed p + 1\<rparr> in
       if redis_available p
       then bind_io (move_to_dlq job_id msg) (\<lambda>_. return_io False) p
       else return_io False p) \<noteq> (Inr True, p2)"
  by (auto simp add: Let_def io_defs split: prod.splits sum.splits)

lemma process_job_True_body:
  assumes "process_job job_id p = (Inr True, p')"
  shows "process_job_body job_id p = (Inr True, p')"
  using assms unfolding process_job_def
  by (rule try_io_True) (rule handler_not_True)

lemmas body_simps = process_job_body_def get_job_status_def io_defs Let_def

text \<open>A run that ends with \<open>True\<close> had its seven store calls served and found the job.\<close>

lemma process_job_body_True_served:
  assumes ok: "fst (process_job_body job_id p) = Inr True"
  shows "redis_available p \<and> hfields_of (hashes p) (job_key_of job_id) \<noteq> []
     \<and> fault p (calls p) = None \<and> fault p (Suc (calls p)) = None
     \<and> fault p (Suc (Suc (calls p))) = None \<and> fault p (Suc (Suc (Suc (calls p)))) = None
     \<and> fault p (Suc (Suc (Suc (Suc (calls p))))) = None
     \<and> fault p (Suc (Suc (Suc (Suc (Suc (calls p)))))) = None
     \<and> fault p (Suc (Suc (Suc (Suc (Suc (Suc (calls p))))))) = None"
proof -
  have avail: "redis_available p"
    using ok by (auto simp add: body_simps split: if_splits)
  have f0: "fault p (calls p) = None"
  proof (rule ccontr)
    assume "fault p (calls p) \<noteq> None"
    then obtain msg where "fault p (calls p) = Some msg" by auto
    with ok avail show False by (simp add: body_simps raises_simps)
  qed
  have found: "hfields_of (hashes p) (job_key_of job_id) \<noteq> []"
  proof (rule ccontr)
    assume "\<not> hfields_of (hashes p) (job_key_of job_id) \<noteq> []"
    with ok avail f0 show False by (simp add: body_simps served_simps)
  qed
  have f1: "fault p (Suc (calls p)) = None"
  proof (rule ccontr)
    assume "fault p (Suc (calls p)) \<noteq> None"
    then obtain msg where "fault p (Suc (calls p)) = Some msg" by auto
    with ok avail f0 found show False by (simp add: body_simps served_simps raises_simps)
  qed
  have f2: "fault p (Suc (Suc (calls p))) = None"
  proof (rule ccontr)
    assume "fault p (Suc (Suc (calls p))) \<noteq> None"
    then obtain msg where "fault p (Suc (Suc (calls p))) = Some msg" by auto
    with ok avail f0 found f1 show False by (simp add: body_simps served_simps raises_simps)
  qed
  have f3: "fault p (Suc (Suc (Suc (calls p)))) = None"
  proof (rule ccontr)
    assume "fault p (Suc (Suc (Suc (calls p)))) \<noteq> None"
    then obtain msg where "fault p (Suc (Suc (Suc (calls p)))) = Some msg" by auto
    with ok avail f0 found f1 f2 show False
      by (simp add: body_simps served_simps raises_simps)
  qed
  have f4: "fault p (Suc (Suc (Suc (Suc (calls p))))) = None"
  proof (rule ccontr)
    assume "fault p (Suc (Suc (Suc (Suc (calls p))))) \<noteq> None"
    then obtain msg where "fault p (Suc (Suc (Suc (Suc (calls p))))) = Some msg" by auto
    with ok avail f0 found f1 f2 f3 show False
      by (simp add: body_simps served_simps raises_simps)
  qed
  have f5: "fault p (Suc (Suc (Suc (Suc (Suc (calls p)))))) = None"
  proof (rule ccontr)
    assume "fault p (Suc (Suc (Suc (Suc (Suc (calls p)))))) \<noteq> None"
    then obtain msg where "fault p (Suc (Suc (Suc (Suc (Suc (calls p)))))) = Some msg" by auto
    with ok avail f0 found f1 f2 f3 f4 show False
      by (simp add: body_simps served_simps raises_simps)
  qed
  have f6: "fault p (Suc (Suc (Suc (Suc (Suc (Suc (calls p))))))) = None"
  proof (rule ccontr)
    assume "fault p (Suc (Suc (Suc (Suc (Suc (Suc (calls p))))))) \<noteq> None"
    then obtain msg where "fault p (Suc (Suc (Suc (Suc (Suc (Suc (calls p))))))) = Some msg"
      by auto
    with ok avail f0 found f1 f2 f3 f4 f5 show False
      by (simp add: body_simps served_simps raises_simps)
  qed
  from avail found f0 f1 f2 f3 f4 f5 f6 show ?thesis by simp
qed

text \<open>
  The record after such a run: the fields of before, overwritten by the last processing
  update (ironist) and the completion update.  The clock is read 14 times: once at the
  start, twice in each of the six updates, once for the elapsed time.
\<close>

lemma process_job_body_served_fields:
  assumes "redis_available p" and "hfields_of (hashes p) (job_key_of job_id) \<noteq> []"
    and "fault p (calls p) = None" and "fault p (Suc (calls p)) = None"
    and "fault p (Suc (Suc (calls p))) = None" and "fault p (Suc (Suc (Suc (calls p)))) = None"
    and "fault p (Suc (Suc (Suc (Suc (calls p))))) = None"
    and "fault p (Suc (Suc (Suc (Suc (Suc (calls p)))))) = None"
    and "fault p (Suc (Suc (Suc (Suc (Suc (Suc (calls p))))))) = None"
  shows "map_of (hfields_of (hashes (snd (process_job_body job_id p))) (job_key_of job_id))
       = (map_of (hfields_of (hashes p) (job_key_of job_id)))
           (''current_service'' \<mapsto> PStr ''ironist'',
            ''started_at'' \<mapsto> PFloat (clock p (tick p + 10)),
            ''status'' \<mapsto> PStr ''completed'',
            ''updated_at'' \<mapsto> PFloat (clock p (tick p + 12)),
            ''completed_at'' \<mapsto> PFloat (clock p (tick p + 13)))"
  using assms
  by (simp add: body_simps served_simps map_of_dict_update fun_eq_iff map_add_def
       eval_nat_numeral)

lemma process_job_True_fields:
  assumes "fst (process_job job_id p) = Inr True"
  shows "map_of (hfields_of (hashes (snd (process_job job_id p))) (job_key_of job_id))
       = (map_of (hfields_of (hashes p) (job_key_of job_id)))
           (''current_service'' \<mapsto> PStr ''ironist'',
            ''started_at'' \<mapsto> PFloat (clock p (tick p + 10)),
            ''status'' \<mapsto> PStr ''completed'',
            ''updated_at'' \<mapsto> PFloat (clock p (tick p + 12)),
            ''completed_at'' \<mapsto> PFloat (clock p (tick p + 13)))"
proof -
  obtain p' where run: "process_job job_id p = (Inr True, p')"
    using assms by (cases "process_job job_id p") simp
  then have body: "process_job_body job_id p = (Inr True, p')"
    by (rule process_job_True_body)
  then have "fst (process_job_body job_id p) = Inr True" by simp
  note served = process_job_body_True_served [OF this]
  from process_job_body_served_fields [of p job_id] served show ?thesis
    by (simp add: run body)
qed

text \<open>
  Claim C6, as stated, fails.  The job \<open>video_001_1000\<close> of \<open>stepback_pipeline\<close> has a
  record, written by a status update, with no \<open>created_at\<close> field, and the wall clock of
  that state is set back while the job runs.  \<open>process_job\<close> returns \<open>True\<close> and the
  record has status completed, but \<open>started_at\<close> is 12 and \<open>completed_at\<close> is 9, and
  there is still no \<open>created_at\<close>.
\<close>

theorem process_job_clock_set_back:
  "fst (process_job ''video_001_1000'' stepback_pipeline) = Inr True
   \<and> map_of (hfields_of (hashes (snd (process_job ''video_001_1000'' stepback_pipeline)))
        (job_key_of ''video_001_1000'')) ''status'' = Some (PStr ''completed'')
   \<and> map_of (hfields_of (hashes (snd (process_job ''video_001_1000'' stepback_pipeline)))
        (job_key_of ''video_001_1000'')) ''created_at'' = None
   \<and> map_of (hfields_of (hashes (snd (process_job ''video_001_1000'' stepback_pipeline)))
        (job_key_of ''video_001_1000'')) ''started_at'' = Some (PFloat 12)
   \<and> map_of (hfields_of (hashes (snd (process_job ''video_001_1000'' stepback_pipeline)))
        (job_key_of ''video_001_1000'')) ''completed_at'' = Some (PFloat 9)"
  unfolding stepback_eval
  by (simp add: process_job_def process_job_body_def eval_simps)

text \<open>
  Claim C6, amended.  If \<open>process_job\<close> returns \<open>True\<close>, which means that none of its
  steps raised, then the record has status completed and \<open>started_at\<close> and
  \<open>completed_at\<close> are set: \<open>started_at\<close> is the 11th and \<open>completed_at\<close> the 14th clock
  reading of the run.  If the readings of the clock are monotone, then
  \<open>started_at \<le> completed_at\<close>.  \<open>process_job\<close> neither writes nor checks
  \<open>created_at\<close>: the field is afterwards what it was before.
\<close>

theorem process_job_completed_timestamps:
  assumes "fst (process_job job_id p) = Inr True"
  shows "\<exists>started completed.
       map_of (hfields_of (hashes (snd (process_job job_id p))) (job_key_of job_id)) ''status''
         = Some (PStr ''completed'')
     \<and> map_of (hfields_of (hashes (snd (process_job job_id p))) (job_key_of job_id)) ''started_at''
         = Some (PFloat started)
     \<and> map_of (hfields_of (hashes (snd (process_job job_id p))) (job_key_of job_id))
          ''completed_at'' = Some (PFloat completed)
     \<and> started = clock p (tick p + 10)
     \<and> completed = clock p (tick p + 13)
     \<and> (mono (clock p) \<longrightarrow> started \<le> completed)
     \<and> map_of (hfields_of (hashes (snd (process_job job_id p))) (job_key_of job_id)) ''created_at''
         = map_of (hfields_of (hashes p) (job_key_of job_id)) ''created_at''"
  by (simp add: process_job_True_fields [OF assms] monoD)

theorem process_job_completed_timestamps_witness:
  "fst (process_job ''video_001_1000'' queued_pipeline) = Inr True
   \<and> mono (clock queued_pipeline)
   \<and> map_of (hfields_of (hashes (snd (process_job ''video_001_1000'' queued_pipeline)))
        (job_key_of ''video_001_1000'')) ''status'' = Some (PStr ''completed'')
   \<and> map_of (hfields_of (hashes (snd (process_job ''video_001_1000'' queued_pipeline)))
        (job_key_of ''video_001_1000'')) ''started_at'' = Some (PFloat 12)
   \<and> map_of (hfields_of (hashes (snd (process_job ''video_001_1000'' queued_pipeline)))
        (job_key_of ''video_001_1000'')) ''completed_at'' = Some (PFloat 15)
   \<and> clock queued_pipeline (tick queued_pipeline + 10)
        \<le> clock queued_pipeline (tick queued_pipeline + 13)"
proof -
  have ok: "fst (process_job ''video_001_1000'' queued_pipeline) = Inr True"
    by (simp add: process_queued)
  have clock: "mono (clock queued_pipeline)"
    by (simp add: queued_eval fresh_pipeline_def mono_def)
  have readings: "clock queued_pipeline (tick queued_pipeline + 10) = 12"
    "clock queued_pipeline (tick queued_pipeline + 13) = 15"
    by (simp_all add: queued_eval fresh_pipeline_def)
  from process_job_completed_timestamps [OF ok] ok clock show ?thesis
    by (auto simp add: readings)
qed

text \<open>
  What that means for a creation time: with a monotone clock, a stored \<open>created_at\<close> that
  is not later than the next clock reading is not later than \<open>started_at\<close>.
\<close>

lemma process_job_created_before_started:
  assumes "mono (clock p)"
    and "fst (process_job job_id p) = Inr True"
    and "map_of (hfields_of (hashes p) (job_key_of job_id)) ''created_at'' = Some (PFloat created)"
    and "created \<le> clock p (tick p)"
  shows "map_of (hfields_of (hashes (snd (process_job job_id p))) (job_key_of job_id))
           ''created_at'' = Some (PFloat created)
     \<and> map_of (hfields_of (hashes (snd (process_job job_id p))) (job_key_of job_id))
           ''started_at'' = Some (PFloat (clock p (tick p + 10)))
     \<and> created \<le> clock p (tick p + 10)"
proof -
  have "clock p (tick p) \<le> clock p (tick p + 10)"
    using assms(1) by (simp add: monoD)
  with assms(3,4) show ?thesis
    by (simp add: process_job_True_fields [OF assms(2)])
qed

subsection \<open>A job whose stage fails\<close>

text \<open>
  Claim C2, on the code.  The job \<open>video_001_1000\<close> has a record, written by a status
  update, and is processed on a store on which the status update for the second stage
  raises.  \<open>process_job\<close> returns \<open>False\<close> and counts the failure, and the dead-letter
  queue holds exactly one entry: the attributes of the record as they were when the stage
  failed, the error text and the move time.  The state record itself keeps the status
  processing and gets no \<open>error\<close> field: the handler never calls
  \<open>update_job_status\<close> with \<open>FAILED\<close>.
\<close>

theorem process_job_failure_leaves_status:
  "fst (process_job ''video_001_1000'' stage_failure_pipeline) = Inr False
   \<and> map_of (hfields_of (hashes (snd (process_job ''video_001_1000'' stage_failure_pipeline)))
        (job_key_of ''video_001_1000'')) ''status'' = Some (PStr ''processing'')
   \<and> map_of (hfields_of (hashes (snd (process_job ''video_001_1000'' stage_failure_pipeline)))
        (job_key_of ''video_001_1000'')) ''error'' = None
   \<and> jobs_failed (snd (process_job ''video_001_1000'' stage_failure_pipeline)) = 1
   \<and> map (map fst)
        (lists (snd (process_job ''video_001_1000'' stage_failure_pipeline)) ''pipeline:queue:dlq'')
       = [[''status'', ''updated_at'', ''current_service'', ''started_at'', ''error'',
           ''moved_to_dlq_at'']]
   \<and> map (\<lambda>entry. (map_of entry ''status'', map_of entry ''current_service'',
                     map_of entry ''error'', map_of entry ''moved_to_dlq_at''))
        (lists (snd (process_job ''video_001_1000'' stage_failure_pipeline)) ''pipeline:queue:dlq'')
       = [(Some (PStr ''processing''), Some (PStr ''oracle''),
           Some (PStr ''Timeout reading from socket''), Some (PFloat 7))]"
  unfolding stage_failure_eval
  by (simp add: process_job_def process_job_body_def move_to_dlq_def blip_pipeline_def
       eval_simps)

text \<open>
  The same holds at every input: when a step of \<open>process_job\<close> raises, the handler
  counts the failure and leaves every record of the store as the failing step left it.
\<close>

lemma process_job_handler_leaves_records:
  assumes "process_job_body job_id p = (Inl e, p1)"
  shows "fst (process_job job_id p) \<noteq> Inr True
     \<and> hashes (snd (process_job job_id p)) = hashes p1
     \<and> jobs_failed (snd (process_job job_id p)) = jobs_failed p1 + 1"
  using assms
  by (simp add: process_job_def try_io_def move_to_dlq_def io_defs hgetall_def rpush_def
       redis_call_def subscript_def queues_def Let_def split: option.splits)

subsection \<open>Batches\<close>

text \<open>
  With the store attached, \<open>submit_video_job\<close> gives \<open>None\<close> for every input: either
  the validation refuses the input, or \<open>submit_job\<close> raises and the handler turns the
  exception into \<open>None\<close>.  Without the store it hands out a job id of its own.  It never
  changes the availability flag.
\<close>

lemma submit_video_job_frame:
  "\<exists>r p'. submit_video_job video_id emotion intensity metadata p = (r, p')
     \<and> redis_available p' = redis_available p
     \<and> (redis_available p \<longrightarrow> r = None)"
  by (cases "validate_profile (projr (get_emotion_profile emotion intensity))")
     (auto simp add: submit_video_job_def submit_video_job_body_def io_defs submit_job_raises
        split: sum.splits prod.splits)

lemma process_job_unavailable:
  "\<not> redis_available p \<Longrightarrow> process_job job_id p = (Inr False, p\<lparr>tick := Suc (tick p)\<rparr>)"
  by (simp add: process_job_def process_job_body_def io_defs)

lemma batch_loop_returns:
  "\<exists>r p'. batch_loop jobs res p = (Inr r, p')
     \<and> total r = total res \<and> successful r = successful res
     \<and> failed r = failed res + length jobs"
proof (induction jobs arbitrary: res p)
  case Nil
  show ?case by simp
next
  case (Cons spec rest)
  let ?e = "case spec_emotion spec of None \<Rightarrow> ''curiosity'' | Some e \<Rightarrow> e"
  let ?i = "case spec_intensity spec of None \<Rightarrow> ''medium'' | Some i \<Rightarrow> i"
  from submit_video_job_frame [of "spec_video_id spec" ?e ?i None p] obtain job_id p1 where
    sub: "submit_video_job (spec_video_id spec) ?e ?i None p = (job_id, p1)"
    and avail: "redis_available p1 = redis_available p"
    and none: "redis_available p \<longrightarrow> job_id = None"
    by blast
  show ?case
  proof (cases "truthy job_id")
    case False
    from Cons.IH [of "res\<lparr>failed := failed res + 1\<rparr>" p1] False sub show ?thesis
      by (auto simp add: Let_def)
  next
    case True
    with none have "\<not> redis_available p" by (auto simp add: truthy_def)
    with avail have run: "process_job (str_of job_id) p1
        = (Inr False, p1\<lparr>tick := Suc (tick p1)\<rparr>)"
      by (simp add: process_job_unavailable)
    from Cons.IH [of "res\<lparr>job_ids := job_ids res @ [str_of job_id],
                         failed := failed res + 1\<rparr>" "p1\<lparr>tick := Suc (tick p1)\<rparr>"]
      True sub run show ?thesis
      by (auto simp add: Let_def)
  qed
qed


text \<open>
  The same lemma shows what the counts are: since no submission through the store
  succeeds, every job of a batch is counted as failed.
\<close>

lemma batch_process_all_failed:
  assumes "batch_process jobs p = (Inr r, p')"
  shows "successful r = 0 \<and> failed r = length jobs"
proof -
  from batch_loop_returns
    [of jobs "\<lparr>total = length jobs, successful = 0, failed = 0, job_ids = []\<rparr>" p] assms
  show ?thesis by (auto simp add: batch_process_def)
qed

end
